theory Spec2Isabelle
  imports Complex_Main "HOL-Library.Multiset"
begin

section \<open>Requests: JSON bodies and JavaScript strings\<close>

text \<open>
  The survey service of \<^verbatim>\<open>src/backend/server.js\<close> exists in two variants in that
  file: the session-token variant (lines 1-251) and the static-secret variant
  (lines 253-451). Both read a JSON body parsed by \<^verbatim>\<open>express.json()\<close>.

  A parsed body is a JSON value. \<open>JObj kvs\<close> lists the own properties of a parsed
  object in the enumeration order of \<^verbatim>\<open>Object.entries\<close>; a parsed object has
  distinct keys, and no property below relies on that. Strings are held as their UTF-8
  bytes. A JSON number is a rational; no handler reads more of a number than whether
  it is zero.
\<close>

datatype json =
    JNull
  | JBool bool
  | JNum rat
  | JStr string
  | JArr "json list"
  | JObj "(string \<times> json) list"

text \<open>
  \<^verbatim>\<open>req.body.k\<close> for the keys the handlers read (\<^verbatim>\<open>name\<close>, \<^verbatim>\<open>answers\<close>,
  \<^verbatim>\<open>text\<close>, \<^verbatim>\<open>password\<close>): \<open>None\<close> is JavaScript's \<^verbatim>\<open>undefined\<close>.
  A body that is not an object has none of these properties.
\<close>

fun get_prop :: "json \<Rightarrow> string \<Rightarrow> json option" where
  "get_prop (JObj kvs) k = map_of kvs k"
| "get_prop _ k = None"

text \<open>
  \<^verbatim>\<open>String.prototype.trim\<close> removes the WhiteSpace and LineTerminator code
  points of ECMAScript from both ends: U+0009..U+000D, U+0020, U+00A0, U+1680,
  U+2000..U+200A, U+2028, U+2029, U+202F, U+205F, U+3000 and U+FEFF, here in UTF-8.
\<close>

definition white_space :: "string list" where
  "white_space =
    [[CHR 0x09], [CHR 0x0A], [CHR 0x0B], [CHR 0x0C], [CHR 0x0D], [CHR 0x20],
     [CHR 0xC2, CHR 0xA0],
     [CHR 0xE1, CHR 0x9A, CHR 0x80],
     [CHR 0xE2, CHR 0x80, CHR 0x80], [CHR 0xE2, CHR 0x80, CHR 0x81],
     [CHR 0xE2, CHR 0x80, CHR 0x82], [CHR 0xE2, CHR 0x80, CHR 0x83],
     [CHR 0xE2, CHR 0x80, CHR 0x84], [CHR 0xE2, CHR 0x80, CHR 0x85],
     [CHR 0xE2, CHR 0x80, CHR 0x86], [CHR 0xE2, CHR 0x80, CHR 0x87],
     [CHR 0xE2, CHR 0x80, CHR 0x88], [CHR 0xE2, CHR 0x80, CHR 0x89],
     [CHR 0xE2, CHR 0x80, CHR 0x8A],
     [CHR 0xE2, CHR 0x80, CHR 0xA8], [CHR 0xE2, CHR 0x80, CHR 0xA9],
     [CHR 0xE2, CHR 0x80, CHR 0xAF],
     [CHR 0xE2, CHR 0x81, CHR 0x9F],
     [CHR 0xE3, CHR 0x80, CHR 0x80],
     [CHR 0xEF, CHR 0xBB, CHR 0xBF]]"

text \<open>The length of the token of \<open>toks\<close> that \<open>s\<close> starts with, 0 when there is none.\<close>

definition ws_len :: "string list \<Rightarrow> string \<Rightarrow> nat" where
  "ws_len toks s =
     (case filter (\<lambda>w. w \<noteq> [] \<and> take (length w) s = w) toks of
        [] \<Rightarrow> 0
      | w # _ \<Rightarrow> length w)"

lemma ws_len_le: "ws_len toks s \<le> length s"
proof (cases "filter (\<lambda>w. w \<noteq> [] \<and> take (length w) s = w) toks")
  case Nil
  then show ?thesis by (simp add: ws_len_def)
next
  case (Cons w ws)
  then have "w \<in> set (filter (\<lambda>w. w \<noteq> [] \<and> take (length w) s = w) toks)"
    by simp
  then have "take (length w) s = w" by simp
  then have "length (take (length w) s) = length w" by simp
  then have "length w \<le> length s" by simp
  with Cons show ?thesis by (simp add: ws_len_def)
qed

function strip :: "string list \<Rightarrow> string \<Rightarrow> string" where
  "strip toks s = (if ws_len toks s = 0 then s else strip toks (drop (ws_len toks s) s))"
  by pat_completeness auto
termination
proof (relation "measure (\<lambda>(toks, s). length s)")
  show "wf (measure (\<lambda>(toks, s). length s))" by simp
next
  fix toks :: "string list" and s :: string
  assume "ws_len toks s \<noteq> 0"
  moreover have "ws_len toks s \<le> length s" by (rule ws_len_le)
  ultimately show "((toks, drop (ws_len toks s) s), (toks, s)) \<in> measure (\<lambda>(toks, s). length s)"
    by simp
qed

declare strip.simps [simp del]

definition trim :: "string \<Rightarrow> string" where
  "trim s = rev (strip (map rev white_space) (rev (strip white_space s)))"

text \<open>
  \<^verbatim>\<open>x?.trim()\<close> on a property of the body: \<^verbatim>\<open>undefined\<close> when \<open>x\<close> is
  \<^verbatim>\<open>undefined\<close> or \<^verbatim>\<open>null\<close>, the trimmed string when \<open>x\<close> is a string, and a
  TypeError otherwise (a number, boolean, array or object of a JSON body has no
  callable \<^verbatim>\<open>trim\<close>).
\<close>

datatype trimmed = Undefined | Trimmed string | TypeError

definition opt_trim :: "json option \<Rightarrow> trimmed" where
  "opt_trim x =
     (case x of
        None \<Rightarrow> Undefined
      | Some JNull \<Rightarrow> Undefined
      | Some (JStr s) \<Rightarrow> Trimmed (trim s)
      | Some _ \<Rightarrow> TypeError)"

text \<open>JavaScript truthiness of a JSON value or \<^verbatim>\<open>undefined\<close>.\<close>

definition truthy :: "json option \<Rightarrow> bool" where
  "truthy x =
     (case x of
        None \<Rightarrow> False
      | Some JNull \<Rightarrow> False
      | Some (JBool b) \<Rightarrow> b
      | Some (JNum n) \<Rightarrow> n \<noteq> 0
      | Some (JStr s) \<Rightarrow> s \<noteq> []
      | Some _ \<Rightarrow> True)"

text \<open>\<^verbatim>\<open>typeof x === "object"\<close>: true of objects, arrays and \<^verbatim>\<open>null\<close>.\<close>

definition typeof_object :: "json option \<Rightarrow> bool" where
  "typeof_object x =
     (case x of
        Some JNull \<Rightarrow> True
      | Some (JArr _) \<Rightarrow> True
      | Some (JObj _) \<Rightarrow> True
      | _ \<Rightarrow> False)"

text \<open>
  A JavaScript number, as \<^verbatim>\<open>Number(qid)\<close> returns it. The built-in \<^verbatim>\<open>Number\<close> on
  strings is a parameter \<open>num\<close> of the model. A property key is the index of an array
  element or the name of an object property; \<^verbatim>\<open>Object.entries\<close> of an array yields
  the indices as keys, and \<^verbatim>\<open>Number\<close> of an index is the index.
\<close>

datatype js_number = NaN | PosInf | NegInf | Fin rat

datatype pkey = Idx nat | Name string

definition to_number :: "(string \<Rightarrow> js_number) \<Rightarrow> pkey \<Rightarrow> js_number" where
  "to_number num k = (case k of Idx i \<Rightarrow> Fin (of_nat i) | Name s \<Rightarrow> num s)"

text \<open>\<^verbatim>\<open>Object.values\<close> and \<^verbatim>\<open>Object.entries\<close> of an object or an array.\<close>

definition object_values :: "json \<Rightarrow> json list" where
  "object_values j = (case j of JObj kvs \<Rightarrow> map snd kvs | JArr xs \<Rightarrow> xs | _ \<Rightarrow> [])"

definition object_entries :: "json \<Rightarrow> (pkey \<times> json) list" where
  "object_entries j =
     (case j of
        JObj kvs \<Rightarrow> map (\<lambda>(k, v). (Name k, v)) kvs
      | JArr xs \<Rightarrow> zip (map Idx [0..<length xs]) xs
      | _ \<Rightarrow> [])"

section \<open>The database\<close>

text \<open>
  The tables of the schema (\<^verbatim>\<open>CREATE TABLE IF NOT EXISTS\<close> in \<^verbatim>\<open>start\<close>), each a
  list of rows in rowid order. The \<^verbatim>\<open>admin\<close> table holds at most the row with
  \<^verbatim>\<open>id = 1\<close>, so it is the optional password hash (the static-secret variant has
  no such table and leaves it \<open>None\<close>). \<^verbatim>\<open>datetime('now')\<close> is the time of the
  request in seconds. \<open>seq_questions\<close>, \<open>seq_responses\<close> and \<open>seq_answers\<close> are the
  \<^verbatim>\<open>AUTOINCREMENT\<close> counters: the largest rowid ever given out in the table.
  The variable \<^verbatim>\<open>db\<close> of the source is the database in memory; \<^verbatim>\<open>saveDb\<close> copies
  it to the file and changes nothing a handler reads.
\<close>

record question =
  q_id :: int
  q_text :: string
  q_position :: int
  q_created_at :: int

record response =
  r_id :: int
  r_name :: string
  r_score :: int
  r_submitted_at :: int

record answer =
  a_id :: int
  a_response_id :: int
  a_question_id :: js_number
  a_value :: "string option"

record database =
  questions :: "question list"
  responses :: "response list"
  answers :: "answer list"
  admin :: "string option"
  seq_questions :: int
  seq_responses :: int
  seq_answers :: int

definition empty_db :: database where
  "empty_db = \<lparr>questions = [], responses = [], answers = [], admin = None,
     seq_questions = 0, seq_responses = 0, seq_answers = 0\<rparr>"

text \<open>The rowid of an insert into an \<^verbatim>\<open>AUTOINCREMENT\<close> table.\<close>

definition next_rowid :: "int \<Rightarrow> int list \<Rightarrow> int" where
  "next_rowid seq ids = fold max ids seq + 1"

text \<open>\<^verbatim>\<open>INSERT INTO questions (text, position) VALUES (?, ?)\<close>, with the new id.\<close>

definition insert_question :: "database \<Rightarrow> int \<Rightarrow> string \<Rightarrow> int \<Rightarrow> int \<times> database" where
  "insert_question d now t pos =
     (let i = next_rowid (seq_questions d) (map q_id (questions d))
      in (i, d\<lparr>questions := questions d @
                 [\<lparr>q_id = i, q_text = t, q_position = pos, q_created_at = now\<rparr>],
               seq_questions := i\<rparr>))"

text \<open>\<^verbatim>\<open>INSERT INTO responses (name, score) VALUES (?, ?)\<close> and \<^verbatim>\<open>last_insert_rowid()\<close>.\<close>

definition insert_response :: "database \<Rightarrow> int \<Rightarrow> string \<Rightarrow> int \<Rightarrow> int \<times> database" where
  "insert_response d now n sc =
     (let i = next_rowid (seq_responses d) (map r_id (responses d))
      in (i, d\<lparr>responses := responses d @
                 [\<lparr>r_id = i, r_name = n, r_score = sc, r_submitted_at = now\<rparr>],
               seq_responses := i\<rparr>))"

text \<open>
  \<^verbatim>\<open>INSERT INTO answers (response_id, question_id, value) VALUES (?, ?, ?)\<close>.
  sql.js binds a number that is not a 32-bit integer as a double, and SQLite stores a
  NaN double as NULL; the column \<^verbatim>\<open>question_id\<close> is declared \<^verbatim>\<open>NOT NULL\<close>, so
  the statement raises for NaN and inserts nothing (\<open>None\<close>).
\<close>

definition insert_answer ::
  "database \<Rightarrow> int \<Rightarrow> js_number \<Rightarrow> string option \<Rightarrow> database option" where
  "insert_answer d rid qid v =
     (if qid = NaN then None
      else
        (let i = next_rowid (seq_answers d) (map a_id (answers d))
         in Some (d\<lparr>answers := answers d @
                   [\<lparr>a_id = i, a_response_id = rid, a_question_id = qid, a_value = v\<rparr>],
                 seq_answers := i\<rparr>)))"

text \<open>\<^verbatim>\<open>SELECT COALESCE(MAX(position), 0) as m FROM questions\<close>.\<close>

definition max_position :: "database \<Rightarrow> int" where
  "max_position d =
     (case map q_position (questions d) of [] \<Rightarrow> 0 | p # ps \<Rightarrow> fold max ps p)"

text \<open>
  sql.js hands the value of an integer column to JavaScript as a number, that is as
  an IEEE double, and \<^verbatim>\<open>+\<close> adds doubles. \<open>to_double x\<close> is the double nearest to
  the integer \<open>x\<close>, ties going to the even significand of 53 bits. A double of
  magnitude 2^53 or more is an integer, so the sum of an integral double and 1 is an
  integer again; it is bound to the \<^verbatim>\<open>INSERT\<close> and stored with its numeric value.
  Column values are 64-bit integers or doubles, so no conversion overflows.
\<close>

fun bit_length :: "nat \<Rightarrow> nat" where
  "bit_length n = (if n = 0 then 0 else Suc (bit_length (n div 2)))"

declare bit_length.simps [simp del]

definition to_double :: "int \<Rightarrow> int" where
  "to_double x =
     (let a = nat \<bar>x\<bar>
      in if a < 2 ^ 53 then x
         else
           (let e = bit_length a - 53;
                q = a div 2 ^ e;
                r = a mod 2 ^ e;
                q' = (if 2 ^ e < 2 * r \<or> (2 * r = 2 ^ e \<and> odd q) then q + 1 else q)
            in sgn x * int (q' * 2 ^ e)))"

text \<open>
  A route parameter \<^verbatim>\<open>:id\<close> is bound as text and compared with an integer column
  under SQLite's numeric affinity: it is modelled by the integer it denotes, \<open>None\<close>
  when it denotes no integer and so equals no id.
\<close>

type_synonym route_id = "int option"

text \<open>\<^verbatim>\<open>UPDATE questions SET text = ? WHERE id = ?\<close>\<close>

definition update_question :: "database \<Rightarrow> string \<Rightarrow> route_id \<Rightarrow> database" where
  "update_question d t qid =
     d\<lparr>questions := map (\<lambda>q. if Some (q_id q) = qid then q\<lparr>q_text := t\<rparr> else q) (questions d)\<rparr>"

text \<open>\<^verbatim>\<open>DELETE FROM questions WHERE id = ?\<close>\<close>

definition delete_question :: "database \<Rightarrow> route_id \<Rightarrow> database" where
  "delete_question d qid = d\<lparr>questions := filter (\<lambda>q. Some (q_id q) \<noteq> qid) (questions d)\<rparr>"

text \<open>\<^verbatim>\<open>DELETE FROM answers WHERE response_id = ?\<close>\<close>

definition delete_answers_of :: "database \<Rightarrow> route_id \<Rightarrow> database" where
  "delete_answers_of d rid =
     d\<lparr>answers := filter (\<lambda>a. Some (a_response_id a) \<noteq> rid) (answers d)\<rparr>"

text \<open>\<^verbatim>\<open>DELETE FROM responses WHERE id = ?\<close>\<close>

definition delete_response :: "database \<Rightarrow> route_id \<Rightarrow> database" where
  "delete_response d rid = d\<lparr>responses := filter (\<lambda>r. Some (r_id r) \<noteq> rid) (responses d)\<rparr>"

text \<open>
  \<^verbatim>\<open>SELECT COUNT(*) as n FROM answers WHERE question_id = ? AND value = 'topp'\<close>, the
  same for \<^verbatim>\<open>'flash'\<close>, and with \<^verbatim>\<open>value IS NOT NULL\<close>; the parameter is the id of
  a question.
\<close>

definition count_value :: "database \<Rightarrow> int \<Rightarrow> string \<Rightarrow> nat" where
  "count_value d qid v =
     length (filter (\<lambda>a. a_question_id a = Fin (of_int qid) \<and> a_value a = Some v) (answers d))"

definition count_not_null :: "database \<Rightarrow> int \<Rightarrow> nat" where
  "count_not_null d qid =
     length (filter (\<lambda>a. a_question_id a = Fin (of_int qid) \<and> a_value a \<noteq> None) (answers d))"

text \<open>
  \<^verbatim>\<open>ORDER BY position ASC\<close>, \<^verbatim>\<open>ORDER BY score DESC\<close> and
  \<^verbatim>\<open>ORDER BY submitted_at DESC\<close>. SQL leaves the order of rows with equal keys
  open; the model keeps them in rowid order.
\<close>

definition by_position :: "question list \<Rightarrow> question list" where
  "by_position qs = sort_key q_position qs"

definition by_score_desc :: "response list \<Rightarrow> response list" where
  "by_score_desc rs = sort_key (\<lambda>r. - r_score r) rs"

definition by_submitted_desc :: "response list \<Rightarrow> response list" where
  "by_submitted_desc rs = sort_key (\<lambda>r. - r_submitted_at r) rs"

section \<open>Replies\<close>

text \<open>
  \<open>Reply status body\<close> is a JSON reply of a handler (\<^verbatim>\<open>res.json\<close> replies with
  status 200 unless \<^verbatim>\<open>res.status\<close> set another). \<open>Raised\<close>: the handler raised an
  exception and sent no reply of its own (Express answers a synchronous exception
  with status 500). \<open>NoRoute\<close>: the variant registers no handler for the request
  (Express answers 404).
\<close>

record stat =
  s_id :: int
  s_text :: string
  s_yes :: nat
  s_no :: nat
  s_total :: nat

datatype payload =
    OkTrue
  | ErrorBody string
  | TokenBody string
  | QuestionList "(int \<times> string \<times> int) list"
  | Leaderboard "(string \<times> int) list"
  | QuestionCreated int string int
  | ResponseCreated int int
  | ResponseList "(response \<times> (js_number \<times> string option) list) list"
  | AnalyticsBody "stat list" nat

datatype outcome = Reply nat payload | Raised | NoRoute

section \<open>Route handlers\<close>

text \<open>
  The handlers below are the same text in both variants of the file, except
  \<^verbatim>\<open>/api/admin/login\<close>, \<^verbatim>\<open>/api/leaderboard\<close> and \<^verbatim>\<open>DELETE /api/responses/:id\<close>,
  which only the session-token variant has.
\<close>

text \<open>\<^verbatim>\<open>app.get("/api/questions")\<close>\<close>

definition get_questions :: "database \<Rightarrow> outcome" where
  "get_questions d =
     Reply 200 (QuestionList
       (map (\<lambda>q. (q_id q, q_text q, q_position q)) (by_position (questions d))))"

text \<open>\<^verbatim>\<open>app.get("/api/leaderboard")\<close>: \<^verbatim>\<open>ORDER BY score DESC LIMIT 5\<close>.\<close>

definition get_leaderboard :: "database \<Rightarrow> outcome" where
  "get_leaderboard d =
     Reply 200 (Leaderboard
       (map (\<lambda>r. (r_name r, r_score r)) (take 5 (by_score_desc (responses d)))))"

text \<open>
  \<^verbatim>\<open>app.post("/api/questions")\<close>, after \<^verbatim>\<open>requireAdmin\<close>. The position is
  \<^verbatim>\<open>Number(maxRow?.m ?? 0) + 1\<close>, computed in doubles.
\<close>

definition post_questions :: "database \<Rightarrow> int \<Rightarrow> json \<Rightarrow> outcome \<times> database" where
  "post_questions d now body =
     (case opt_trim (get_prop body ''text'') of
        TypeError \<Rightarrow> (Raised, d)
      | Undefined \<Rightarrow> (Reply 400 (ErrorBody ''text is required''), d)
      | Trimmed t \<Rightarrow>
          if t = [] then (Reply 400 (ErrorBody ''text is required''), d)
          else
            (let pos = to_double (to_double (max_position d) + 1);
                 (i, d') = insert_question d now t pos
             in (Reply 200 (QuestionCreated i t pos), d')))"

text \<open>\<^verbatim>\<open>app.put("/api/questions/:id")\<close>, after \<^verbatim>\<open>requireAdmin\<close>.\<close>

definition put_questions :: "database \<Rightarrow> route_id \<Rightarrow> json \<Rightarrow> outcome \<times> database" where
  "put_questions d qid body =
     (case opt_trim (get_prop body ''text'') of
        TypeError \<Rightarrow> (Raised, d)
      | Undefined \<Rightarrow> (Reply 400 (ErrorBody ''text is required''), d)
      | Trimmed t \<Rightarrow>
          if t = [] then (Reply 400 (ErrorBody ''text is required''), d)
          else (Reply 200 OkTrue, update_question d t qid))"

text \<open>\<^verbatim>\<open>app.delete("/api/questions/:id")\<close>, after \<^verbatim>\<open>requireAdmin\<close>.\<close>

definition delete_questions :: "database \<Rightarrow> route_id \<Rightarrow> outcome \<times> database" where
  "delete_questions d qid = (Reply 200 OkTrue, delete_question d qid)"

text \<open>
  \<^verbatim>\<open>app.post("/api/responses")\<close>. The reward of one answer value, the value stored
  for it, and the loop over \<^verbatim>\<open>Object.entries(answers)\<close>: the loop stops at the first
  insert that raises, and the rows inserted before it stay in the database.
\<close>

definition reward :: "json \<Rightarrow> int" where
  "reward v = (if v = JStr ''topp'' then 2 else if v = JStr ''flash'' then 3 else 0)"

definition score_of :: "json \<Rightarrow> int" where
  "score_of ans = fold (\<lambda>v total. total + reward v) (object_values ans) 0"

definition safeVal :: "json \<Rightarrow> string option" where
  "safeVal v = (if v = JStr ''topp'' \<or> v = JStr ''flash''
                then (case v of JStr s \<Rightarrow> Some s | _ \<Rightarrow> None) else None)"

fun insert_answers ::
  "(string \<Rightarrow> js_number) \<Rightarrow> int \<Rightarrow> (pkey \<times> json) list \<Rightarrow> database \<Rightarrow> bool \<times> database" where
  "insert_answers num rid [] d = (True, d)"
| "insert_answers num rid ((qid, v) # es) d =
     (case insert_answer d rid (to_number num qid) (safeVal v) of
        None \<Rightarrow> (False, d)
      | Some d' \<Rightarrow> insert_answers num rid es d')"

definition post_responses ::
  "(string \<Rightarrow> js_number) \<Rightarrow> database \<Rightarrow> int \<Rightarrow> json \<Rightarrow> outcome \<times> database" where
  "post_responses num d now body =
     (case opt_trim (get_prop body ''name'') of
        TypeError \<Rightarrow> (Raised, d)
      | Undefined \<Rightarrow> (Reply 400 (ErrorBody ''name is required''), d)
      | Trimmed n \<Rightarrow>
          if n = [] then (Reply 400 (ErrorBody ''name is required''), d)
          else if \<not> truthy (get_prop body ''answers'') \<or> \<not> typeof_object (get_prop body ''answers'')
          then (Reply 400 (ErrorBody ''answers is required''), d)
          else
            (let ans = the (get_prop body ''answers'');
                 score = score_of ans;
                 (responseId, d1) = insert_response d now n score;
                 (inserted, d2) = insert_answers num responseId (object_entries ans) d1
             in if inserted then (Reply 200 (ResponseCreated responseId score), d2)
                else (Raised, d2)))"

text \<open>
  \<^verbatim>\<open>app.get("/api/responses")\<close>, after \<^verbatim>\<open>requireAdmin\<close>: the assignment
  \<^verbatim>\<open>answerMap[row.response_id][row.question_id] = row.value\<close> overwrites an
  earlier value of the same key.
\<close>

fun assign :: "'k \<Rightarrow> 'v \<Rightarrow> ('k \<times> 'v) list \<Rightarrow> ('k \<times> 'v) list" where
  "assign k v [] = [(k, v)]"
| "assign k v ((k', v') # m) = (if k' = k then (k, v) # m else (k', v') # assign k v m)"

definition answers_of :: "database \<Rightarrow> int \<Rightarrow> (js_number \<times> string option) list" where
  "answers_of d rid =
     fold (\<lambda>a m. assign (a_question_id a) (a_value a) m)
       (filter (\<lambda>a. a_response_id a = rid) (answers d)) []"

definition get_responses :: "database \<Rightarrow> outcome" where
  "get_responses d =
     Reply 200 (ResponseList
       (map (\<lambda>r. (r, answers_of d (r_id r))) (by_submitted_desc (responses d))))"

text \<open>\<^verbatim>\<open>app.delete("/api/responses/:id")\<close>, after \<^verbatim>\<open>requireAdmin\<close>.\<close>

definition delete_responses :: "database \<Rightarrow> route_id \<Rightarrow> outcome \<times> database" where
  "delete_responses d rid = (Reply 200 OkTrue, delete_response (delete_answers_of d rid) rid)"

text \<open>\<^verbatim>\<open>app.get("/api/analytics")\<close>, after \<^verbatim>\<open>requireAdmin\<close>.\<close>

definition question_stat :: "database \<Rightarrow> question \<Rightarrow> stat" where
  "question_stat d q =
     \<lparr>s_id = q_id q, s_text = q_text q,
      s_yes = count_value d (q_id q) ''topp'',
      s_no = count_value d (q_id q) ''flash'',
      s_total = count_not_null d (q_id q)\<rparr>"

definition get_analytics :: "database \<Rightarrow> outcome" where
  "get_analytics d =
     Reply 200 (AnalyticsBody
       (map (question_stat d) (by_position (questions d)))
       (length (responses d)))"

section \<open>The session-token variant\<close>

text \<open>
  The state of the process: the database and the set \<^verbatim>\<open>activeSessions\<close>.
  \<^verbatim>\<open>String.prototype.replace\<close> with a string pattern replaces its first occurrence.
\<close>

record state =
  db :: database
  activeSessions :: "string set"

fun replace_first :: "string \<Rightarrow> string \<Rightarrow> string \<Rightarrow> string" where
  "replace_first pat rep [] = (if pat = [] then rep else [])"
| "replace_first pat rep (c # cs) =
     (if take (length pat) (c # cs) = pat then rep @ drop (length pat) (c # cs)
      else c # replace_first pat rep cs)"

definition requireAdmin :: "string set \<Rightarrow> string option \<Rightarrow> bool" where
  "requireAdmin sessions hdr =
     (case hdr of
        None \<Rightarrow> False
      | Some h \<Rightarrow>
          (let token = replace_first ''Bearer '' [] h
           in token \<noteq> [] \<and> token \<in> sessions))"

text \<open>
  A request: the route, the \<^verbatim>\<open>Authorization\<close> header, the parsed body, the time
  \<^verbatim>\<open>datetime('now')\<close> gives while it is handled, and the token the login handler
  would mint from \<^verbatim>\<open>Date.now()\<close> and \<^verbatim>\<open>Math.random()\<close>.
\<close>

datatype endpoint =
    GET_health
  | POST_admin_login
  | GET_questions
  | GET_leaderboard
  | POST_questions
  | PUT_questions route_id
  | DELETE_questions route_id
  | POST_responses
  | GET_responses
  | DELETE_responses route_id
  | GET_analytics

record request =
  route :: endpoint
  authorization :: "string option"
  req_body :: json
  req_time :: int
  req_token :: string

text \<open>
  \<^verbatim>\<open>app.post("/api/admin/login")\<close>; \<open>cmp\<close> is \<^verbatim>\<open>bcrypt.compare\<close>, which rejects
  data that is not a string.
\<close>

definition post_admin_login ::
  "(string \<Rightarrow> string \<Rightarrow> bool) \<Rightarrow> state \<Rightarrow> string \<Rightarrow> json \<Rightarrow> outcome \<times> state" where
  "post_admin_login cmp st token body =
     (if \<not> truthy (get_prop body ''password'')
      then (Reply 400 (ErrorBody ''Password required''), st)
      else
        (case admin (db st) of
           None \<Rightarrow> (Reply 500 (ErrorBody ''Admin not configured''), st)
         | Some password_hash \<Rightarrow>
             (case get_prop body ''password'' of
                Some (JStr password) \<Rightarrow>
                  if \<not> cmp password password_hash
                  then (Reply 401 (ErrorBody ''Invalid password''), st)
                  else (Reply 200 (TokenBody token),
                        st\<lparr>activeSessions := insert token (activeSessions st)\<rparr>)
              | _ \<Rightarrow> (Raised, st))))"

definition unauthorized :: outcome where
  "unauthorized = Reply 401 (ErrorBody ''Unauthorized'')"

definition on_db :: "state \<Rightarrow> outcome \<times> database \<Rightarrow> outcome \<times> state" where
  "on_db st r = (fst r, st\<lparr>db := snd r\<rparr>)"

definition handle_session ::
  "(string \<Rightarrow> js_number) \<Rightarrow> (string \<Rightarrow> string \<Rightarrow> bool) \<Rightarrow> state \<Rightarrow> request \<Rightarrow> outcome \<times> state" where
  "handle_session num cmp st req =
     (let ok = requireAdmin (activeSessions st) (authorization req)
      in case route req of
           GET_health \<Rightarrow> (Reply 200 OkTrue, st)
         | POST_admin_login \<Rightarrow> post_admin_login cmp st (req_token req) (req_body req)
         | GET_questions \<Rightarrow> (get_questions (db st), st)
         | GET_leaderboard \<Rightarrow> (get_leaderboard (db st), st)
         | POST_questions \<Rightarrow>
             if ok then on_db st (post_questions (db st) (req_time req) (req_body req))
             else (unauthorized, st)
         | PUT_questions qid \<Rightarrow>
             if ok then on_db st (put_questions (db st) qid (req_body req))
             else (unauthorized, st)
         | DELETE_questions qid \<Rightarrow>
             if ok then on_db st (delete_questions (db st) qid)
             else (unauthorized, st)
         | POST_responses \<Rightarrow> on_db st (post_responses num (db st) (req_time req) (req_body req))
         | GET_responses \<Rightarrow>
             if ok then (get_responses (db st), st) else (unauthorized, st)
         | DELETE_responses rid \<Rightarrow>
             if ok then on_db st (delete_responses (db st) rid)
             else (unauthorized, st)
         | GET_analytics \<Rightarrow>
             if ok then (get_analytics (db st), st) else (unauthorized, st))"

section \<open>The static-secret variant\<close>

text \<open>
  \<^verbatim>\<open>const ADMIN_PASSWORD = process.env.ADMIN_PASSWORD || "admin123"\<close>: the variable
  of the environment, when set and not empty. The variant keeps no state but the
  database, and registers no login, leaderboard or response-delete route.
\<close>

definition ADMIN_PASSWORD :: "string option \<Rightarrow> string" where
  "ADMIN_PASSWORD env =
     (case env of None \<Rightarrow> ''admin123'' | Some p \<Rightarrow> if p = [] then ''admin123'' else p)"

definition requireAdmin_static :: "string option \<Rightarrow> string option \<Rightarrow> bool" where
  "requireAdmin_static env hdr = (hdr = Some (''Bearer '' @ ADMIN_PASSWORD env))"

definition handle_static ::
  "(string \<Rightarrow> js_number) \<Rightarrow> string option \<Rightarrow> database \<Rightarrow> request \<Rightarrow> outcome \<times> database" where
  "handle_static num env d req =
     (let ok = requireAdmin_static env (authorization req)
      in case route req of
           GET_health \<Rightarrow> (Reply 200 OkTrue, d)
         | POST_admin_login \<Rightarrow> (NoRoute, d)
         | GET_questions \<Rightarrow> (get_questions d, d)
         | GET_leaderboard \<Rightarrow> (NoRoute, d)
         | POST_questions \<Rightarrow>
             if ok then post_questions d (req_time req) (req_body req) else (unauthorized, d)
         | PUT_questions qid \<Rightarrow>
             if ok then put_questions d qid (req_body req) else (unauthorized, d)
         | DELETE_questions qid \<Rightarrow>
             if ok then delete_questions d qid else (unauthorized, d)
         | POST_responses \<Rightarrow> post_responses num d (req_time req) (req_body req)
         | GET_responses \<Rightarrow> if ok then (get_responses d, d) else (unauthorized, d)
         | DELETE_responses rid \<Rightarrow> (NoRoute, d)
         | GET_analytics \<Rightarrow> if ok then (get_analytics d, d) else (unauthorized, d))"

section \<open>Boot and the reachable states\<close>

text \<open>
  \<^verbatim>\<open>start\<close>: the schema is created if absent, the admin row is seeded with the
  hash of the configured password if absent (session-token variant only), and the five
  default questions are inserted at positions 0 to 4 when the table is empty.
\<close>

definition defaults :: "string list" where
  "defaults = [''Route 1: Red Wall'', ''Route 2: Blue Corner'', ''Route 3: Yellow Overhang'',
     ''Route 4: Green Slab'', ''Route 5: Black Crack'']"

definition seed_questions :: "int \<Rightarrow> database \<Rightarrow> database" where
  "seed_questions t d =
     (if length (questions d) = 0
      then fold (\<lambda>(x, i) d'. snd (insert_question d' t x i)) (zip defaults [0..4]) d
      else d)"

definition seed_admin :: "string \<Rightarrow> database \<Rightarrow> database" where
  "seed_admin h d = (if admin d = None then d\<lparr>admin := Some h\<rparr> else d)"

definition start_session :: "string \<Rightarrow> int \<Rightarrow> database \<Rightarrow> state" where
  "start_session h t d = \<lparr>db = seed_questions t (seed_admin h d), activeSessions = {}\<rparr>"

definition start_static :: "int \<Rightarrow> database \<Rightarrow> database" where
  "start_static t d = seed_questions t d"

text \<open>
  The states of a deployment: it boots on an empty database, handles requests, drops
  a session token when its 24 hours are over, and may be restarted on the database it
  has written.
\<close>

inductive reachable_session ::
  "(string \<Rightarrow> js_number) \<Rightarrow> (string \<Rightarrow> string \<Rightarrow> bool) \<Rightarrow> state \<Rightarrow> bool"
  for num :: "string \<Rightarrow> js_number" and cmp :: "string \<Rightarrow> string \<Rightarrow> bool" where
  boot: "reachable_session num cmp (start_session h t empty_db)"
| request: "reachable_session num cmp st \<Longrightarrow> reachable_session num cmp (snd (handle_session num cmp st req))"
| expire: "reachable_session num cmp st \<Longrightarrow>
     reachable_session num cmp (st\<lparr>activeSessions := activeSessions st - {token}\<rparr>)"
| restart: "reachable_session num cmp st \<Longrightarrow> reachable_session num cmp (start_session h t (db st))"

inductive reachable_static :: "(string \<Rightarrow> js_number) \<Rightarrow> string option \<Rightarrow> database \<Rightarrow> bool"
  for num :: "string \<Rightarrow> js_number" and env :: "string option" where
  boot: "reachable_static num env (start_static t empty_db)"
| request: "reachable_static num env d \<Longrightarrow> reachable_static num env (snd (handle_static num env d req))"
| restart: "reachable_static num env d \<Longrightarrow> reachable_static num env (start_static t d)"

section \<open>Vocabulary of the properties\<close>

text \<open>A non-null object of JavaScript: an object or an array.\<close>

definition is_object :: "json \<Rightarrow> bool" where
  "is_object j = (case j of JObj _ \<Rightarrow> True | JArr _ \<Rightarrow> True | _ \<Rightarrow> False)"

text \<open>The columns of an answer row that a handler sets.\<close>

definition answer_cols :: "answer \<Rightarrow> int \<times> js_number \<times> string option" where
  "answer_cols a = (a_response_id a, a_question_id a, a_value a)"

text \<open>The closed set of stored answer values: an accepted token or NULL.\<close>

definition accepted :: "string option \<Rightarrow> bool" where
  "accepted v = (v = None \<or> v = Some ''topp'' \<or> v = Some ''flash'')"

text \<open>
  An instance of the parameter \<open>num\<close> for concrete inputs: \<^verbatim>\<open>Number\<close> on the keys
  \<^verbatim>\<open>"1"\<close>, \<^verbatim>\<open>"2"\<close>, \<^verbatim>\<open>"3"\<close> and on keys that are no numeric literal, such as
  \<^verbatim>\<open>"abc"\<close>. The concrete inputs below use no other key.
\<close>

definition Number_sample :: "string \<Rightarrow> js_number" where
  "Number_sample s =
     (if s = ''1'' then Fin 1 else if s = ''2'' then Fin 2 else if s = ''3'' then Fin 3
      else NaN)"

text \<open>A submission with the answers \<^verbatim>\<open>{1:"topp", 2:"flash", 3:"bogus"}\<close>.\<close>

definition sample_answers :: json where
  "sample_answers = JObj [(''1'', JStr ''topp''), (''2'', JStr ''flash''), (''3'', JStr ''bogus'')]"

definition sample_submission :: json where
  "sample_submission = JObj [(''name'', JStr '' Ann ''), (''answers'', sample_answers)]"




text \<open>Concrete inputs: submissions, a request and a state with one session token.\<close>

definition nan_submission :: json where
  "nan_submission = JObj [(''name'', JStr ''Ann''), (''answers'', JObj [(''abc'', JStr ''topp'')])]"

definition array_submission :: json where
  "array_submission = JObj [(''name'', JStr ''Bo''), (''answers'', JArr [JStr ''flash'', JNull])]"

definition sample_request :: "endpoint \<Rightarrow> string option \<Rightarrow> json \<Rightarrow> request" where
  "sample_request e h b =
     \<lparr>route = e, authorization = h, req_body = b, req_time = 0, req_token = ''t0''\<rparr>"

definition sample_db :: database where
  "sample_db =
     \<lparr>questions =
        [\<lparr>q_id = 1, q_text = ''Red Wall'', q_position = 0, q_created_at = 0\<rparr>,
         \<lparr>q_id = 2, q_text = ''Blue Corner'', q_position = 4, q_created_at = 0\<rparr>],
      responses =
        [\<lparr>r_id = 1, r_name = ''Ann'', r_score = 5, r_submitted_at = 1\<rparr>,
         \<lparr>r_id = 2, r_name = ''Bo'', r_score = 0, r_submitted_at = 2\<rparr>],
      answers =
        [\<lparr>a_id = 1, a_response_id = 1, a_question_id = Fin 1, a_value = Some ''topp''\<rparr>,
         \<lparr>a_id = 2, a_response_id = 1, a_question_id = Fin 2, a_value = Some ''flash''\<rparr>,
         \<lparr>a_id = 3, a_response_id = 2, a_question_id = Fin 1, a_value = None\<rparr>],
      admin = None, seq_questions = 2, seq_responses = 2, seq_answers = 3\<rparr>"

definition large_db :: database where
  "large_db = empty_db\<lparr>questions :=
       [\<lparr>q_id = 1, q_text = ''Red Wall'', q_position = 9007199254740992, q_created_at = 0\<rparr>],
     seq_questions := 1\<rparr>"

definition sample_state :: state where
  "sample_state = \<lparr>db = sample_db, activeSessions = {''tok''}\<rparr>"

text \<open>The invariant of the answers table, as a function on the database.\<close>

definition closed_values :: "database \<Rightarrow> bool" where
  "closed_values d = list_all (\<lambda>a. accepted (a_value a)) (answers d)"

text \<open>
  States reached by booting each variant on the empty database and handling the sample
  submission, and a database with seven responses.
\<close>

definition reached_session :: state where
  "reached_session =
     snd (handle_session Number_sample (\<lambda>p h. False) (start_session ''hash'' 0 empty_db)
       (sample_request POST_responses None sample_submission))"

definition reached_static :: database where
  "reached_static =
     snd (handle_static Number_sample None (start_static 0 empty_db)
       (sample_request POST_responses None sample_submission))"

definition sample_board :: database where
  "sample_board = empty_db\<lparr>responses :=
     [\<lparr>r_id = 1, r_name = ''a'', r_score = 1, r_submitted_at = 0\<rparr>,
      \<lparr>r_id = 2, r_name = ''b'', r_score = 7, r_submitted_at = 0\<rparr>,
      \<lparr>r_id = 3, r_name = ''c'', r_score = 3, r_submitted_at = 0\<rparr>,
      \<lparr>r_id = 4, r_name = ''d'', r_score = 7, r_submitted_at = 0\<rparr>,
      \<lparr>r_id = 5, r_name = ''e'', r_score = 0, r_submitted_at = 0\<rparr>,
      \<lparr>r_id = 6, r_name = ''f'', r_score = 5, r_submitted_at = 0\<rparr>,
      \<lparr>r_id = 7, r_name = ''g'', r_score = 2, r_submitted_at = 0\<rparr>]\<rparr>"

section \<open>Facts about the submission handler\<close>

lemma fold_reward: "fold (\<lambda>v total. total + reward v) xs a = a + sum_list (map reward xs)"
  by (induction xs arbitrary: a) simp_all

lemma score_of_sum:
  "score_of ans = (\<Sum>v\<leftarrow>object_values ans. if v = JStr ''topp'' then 2 else if v = JStr ''flash'' then 3 else 0)"
proof -
  have "reward = (\<lambda>v. if v = JStr ''topp'' then 2 else if v = JStr ''flash'' then 3 else 0)"
    by (rule ext) (simp add: reward_def)
  then show ?thesis by (simp add: score_of_def fold_reward)
qed

lemma accepted_safeVal: "accepted (safeVal v)"
  by (simp add: accepted_def safeVal_def)

lemma insert_answer_Some:
  "insert_answer d rid q v = Some d' \<Longrightarrow>
     q \<noteq> NaN \<and> questions d' = questions d \<and> responses d' = responses d \<and> admin d' = admin d
     \<and> seq_questions d' = seq_questions d \<and> seq_responses d' = seq_responses d
     \<and> (\<exists>a. answers d' = answers d @ [a] \<and> answer_cols a = (rid, q, v))"
  by (auto simp: insert_answer_def Let_def answer_cols_def split: if_splits)

lemma insert_answer_None: "insert_answer d rid q v = None \<longleftrightarrow> q = NaN"
  by (simp add: insert_answer_def Let_def)

lemma insert_answers_frame:
  "insert_answers num rid es d = (b, d') \<Longrightarrow>
     questions d' = questions d \<and> responses d' = responses d \<and> admin d' = admin d
     \<and> seq_questions d' = seq_questions d \<and> seq_responses d' = seq_responses d"
proof (induction es arbitrary: d)
  case Nil
  then show ?case by simp
next
  case (Cons e es)
  obtain k v where e: "e = (k, v)" by (cases e)
  show ?case
  proof (cases "insert_answer d rid (to_number num k) (safeVal v)")
    case None
    with Cons.prems e show ?thesis by simp
  next
    case (Some d1)
    with Cons.prems e have "insert_answers num rid es d1 = (b, d')" by simp
    from Cons.IH [OF this] insert_answer_Some [OF Some] show ?thesis by simp
  qed
qed

lemma insert_answers_rows:
  "insert_answers num rid es d = (b, d') \<Longrightarrow>
     \<exists>rows. answers d' = answers d @ rows
       \<and> map answer_cols rows = map (\<lambda>(k, v). (rid, to_number num k, safeVal v)) (take (length rows) es)
       \<and> length rows \<le> length es
       \<and> (b \<longleftrightarrow> length rows = length es)
       \<and> (b \<longleftrightarrow> (\<forall>(k, v) \<in> set es. to_number num k \<noteq> NaN))"
proof (induction es arbitrary: d)
  case Nil
  then show ?case by simp
next
  case (Cons e es)
  obtain k v where e: "e = (k, v)" by (cases e)
  show ?case
  proof (cases "insert_answer d rid (to_number num k) (safeVal v)")
    case None
    then have "to_number num k = NaN" by (simp add: insert_answer_None)
    with None Cons.prems e show ?thesis by auto
  next
    case (Some d1)
    with Cons.prems e have run: "insert_answers num rid es d1 = (b, d')" by simp
    from insert_answer_Some [OF Some] obtain a where
      a: "answers d1 = answers d @ [a]" "answer_cols a = (rid, to_number num k, safeVal v)"
        "to_number num k \<noteq> NaN" by blast
    from Cons.IH [OF run] obtain rows where
      rows: "answers d' = answers d1 @ rows"
        "map answer_cols rows = map (\<lambda>(k, v). (rid, to_number num k, safeVal v)) (take (length rows) es)"
        "length rows \<le> length es" "b \<longleftrightarrow> length rows = length es"
        "b \<longleftrightarrow> (\<forall>(k, v) \<in> set es. to_number num k \<noteq> NaN)" by blast
    show ?thesis
      apply (rule exI [of _ "a # rows"])
      using a rows e by simp
  qed
qed

lemma insert_response_eq:
  "insert_response d t n sc = (rid, d1) \<Longrightarrow>
     responses d1 = responses d @ [\<lparr>r_id = rid, r_name = n, r_score = sc, r_submitted_at = t\<rparr>]
     \<and> answers d1 = answers d \<and> questions d1 = questions d \<and> admin d1 = admin d
     \<and> seq_questions d1 = seq_questions d \<and> seq_answers d1 = seq_answers d"
  by (auto simp: insert_response_def Let_def)

lemma is_object_checks:
  "is_object ans \<Longrightarrow> truthy (Some ans) \<and> typeof_object (Some ans)"
  by (cases ans) (simp_all add: is_object_def truthy_def typeof_object_def)

lemma post_responses_accept:
  assumes "opt_trim (get_prop b ''name'') = Trimmed n" and "n \<noteq> []"
    and "get_prop b ''answers'' = Some ans" and "is_object ans"
    and "insert_response d t n (score_of ans) = (rid, d1)"
    and "insert_answers num rid (object_entries ans) d1 = (ok, d2)"
  shows "post_responses num d t b =
           (if ok then Reply 200 (ResponseCreated rid (score_of ans)) else Raised, d2)"
  using assms is_object_checks [of ans] by (simp add: post_responses_def Let_def)

lemma three_rows:
  "map f rows = [x, y, z] \<Longrightarrow> \<exists>a b c. rows = [a, b, c] \<and> f a = x \<and> f b = y \<and> f c = z"
  by (cases rows; cases "tl rows"; cases "tl (tl rows)") auto

lemma checks_iff_object:
  "truthy x \<and> typeof_object x \<longleftrightarrow> (\<exists>ans. x = Some ans \<and> is_object ans)"
proof (cases x)
  case None
  then show ?thesis by (simp add: truthy_def)
next
  case (Some j)
  then show ?thesis
    by (cases j) (simp_all add: is_object_def truthy_def typeof_object_def)
qed

lemma post_responses_no_name:
  assumes "get_prop b ''name'' = None \<or> get_prop b ''name'' = Some JNull
           \<or> (\<exists>s. get_prop b ''name'' = Some (JStr s) \<and> trim s = [])"
  shows "post_responses num d t b = (Reply 400 (ErrorBody ''name is required''), d)"
  using assms by (auto simp: post_responses_def opt_trim_def)

lemma post_responses_no_answers:
  assumes "get_prop b ''name'' = Some (JStr s)" and "trim s \<noteq> []"
    and "\<forall>ans. get_prop b ''answers'' = Some ans \<longrightarrow> \<not> is_object ans"
  shows "post_responses num d t b = (Reply 400 (ErrorBody ''answers is required''), d)"
proof -
  have "\<not> (truthy (get_prop b ''answers'') \<and> typeof_object (get_prop b ''answers''))"
    using assms(3) by (simp add: checks_iff_object)
  with assms(1,2) show ?thesis
    by (auto simp: post_responses_def opt_trim_def)
qed

lemma post_responses_wrong_name:
  assumes "get_prop b ''name'' = Some j" and "j \<noteq> JNull" and "\<forall>s. j \<noteq> JStr s"
  shows "post_responses num d t b = (Raised, d)"
  using assms by (cases j) (simp_all add: post_responses_def opt_trim_def)

lemma post_responses_stored:
  assumes "get_prop b ''name'' = Some (JStr s)" and "trim s \<noteq> []"
    and "get_prop b ''answers'' = Some ans" and "is_object ans"
    and "\<forall>(k, v) \<in> set (object_entries ans). to_number num k \<noteq> NaN"
  shows "\<exists>rid d' row rows.
      post_responses num d t b = (Reply 200 (ResponseCreated rid (score_of ans)), d')
      \<and> responses d' = responses d @ [row]
      \<and> answers d' = answers d @ rows
      \<and> map answer_cols rows = map (\<lambda>(k, v). (rid, to_number num k, safeVal v)) (object_entries ans)
      \<and> questions d' = questions d \<and> admin d' = admin d"
proof -
  have nm: "opt_trim (get_prop b ''name'') = Trimmed (trim s)"
    using assms(1) by (simp add: opt_trim_def)
  obtain rid d1 where ir: "insert_response d t (trim s) (score_of ans) = (rid, d1)"
    by (cases "insert_response d t (trim s) (score_of ans)")
  obtain ok d2 where ia: "insert_answers num rid (object_entries ans) d1 = (ok, d2)"
    by (cases "insert_answers num rid (object_entries ans) d1")
  from insert_answers_rows [OF ia] obtain rows where
    rows: "answers d2 = answers d1 @ rows"
      "map answer_cols rows =
         map (\<lambda>(k, v). (rid, to_number num k, safeVal v)) (take (length rows) (object_entries ans))"
      "ok \<longleftrightarrow> length rows = length (object_entries ans)"
      "ok \<longleftrightarrow> (\<forall>(k, v) \<in> set (object_entries ans). to_number num k \<noteq> NaN)"
    by blast
  have ok: ok using rows(4) assms(5) by simp
  with rows(3) have len: "length rows = length (object_entries ans)" by simp
  have run: "post_responses num d t b = (Reply 200 (ResponseCreated rid (score_of ans)), d2)"
    using post_responses_accept [OF nm assms(2,3,4) ir ia] ok by simp
  show ?thesis
    apply (rule exI [of _ rid], rule exI [of _ d2])
    apply (rule exI [of _ "\<lparr>r_id = rid, r_name = trim s, r_score = score_of ans, r_submitted_at = t\<rparr>"])
    apply (rule exI [of _ rows])
    using run rows(1,2) len insert_response_eq [OF ir] insert_answers_frame [OF ia] by simp
qed

lemma entries_of_array:
  "map (\<lambda>(k, v). (rid, to_number num k, safeVal v)) (object_entries (JArr xs))
     = map (\<lambda>i. (rid, Fin (of_nat i), safeVal (xs ! i))) [0..<length xs]"
  by (rule nth_equalityI) (simp_all add: object_entries_def to_number_def)

lemma array_keys_numeric:
  "\<forall>(k, v) \<in> set (object_entries (JArr xs)). to_number num k \<noteq> NaN"
  by (auto simp: object_entries_def to_number_def dest!: set_zip_leftD)

section \<open>Facts about the routers and the question handlers\<close>








lemma submission_routes:
  "route req = POST_responses \<Longrightarrow>
     handle_session num cmp st req =
       (fst (post_responses num (db st) (req_time req) (req_body req)),
        st\<lparr>db := snd (post_responses num (db st) (req_time req) (req_body req))\<rparr>)
     \<and> handle_static num env d0 req = post_responses num d0 (req_time req) (req_body req)"
  by (simp add: handle_session_def handle_static_def on_db_def)







lemma max_position_Max:
  "max_position d = (if questions d = [] then 0 else Max (q_position ` set (questions d)))"
proof (cases "questions d")
  case Nil
  then show ?thesis by (simp add: max_position_def)
next
  case (Cons q qs)
  have "fold max (map q_position qs) (q_position q) = Max (set (q_position q # map q_position qs))"
    by (simp only: Max.set_eq_fold)
  with Cons show ?thesis by (simp add: max_position_def)
qed

lemma bit_length_0: "bit_length 0 = 0"
  by (simp add: bit_length.simps)

lemma bit_length_pos: "0 < n \<Longrightarrow> bit_length n = Suc (bit_length (n div 2))"
  by (subst bit_length.simps) simp

lemma bit_length_two_53: "bit_length 9007199254740992 = 54"
  by (simp add: bit_length_0 bit_length_pos)

lemma bit_length_two_53_1: "bit_length 9007199254740993 = 54"
  by (simp add: bit_length_0 bit_length_pos)

lemma to_double_beyond: "to_double (9007199254740992 + 1) = 9007199254740992"
  by (simp add: to_double_def Let_def bit_length_two_53_1)

lemma to_double_exact: "\<bar>x\<bar> \<le> 2 ^ 53 \<Longrightarrow> to_double x = x"
proof -
  assume b: "\<bar>x\<bar> \<le> 2 ^ 53"
  have top: "to_double 9007199254740992 = 9007199254740992"
    by (simp add: to_double_def Let_def bit_length_two_53)
  have bot: "to_double (- 9007199254740992) = - 9007199254740992"
    by (simp add: to_double_def Let_def bit_length_two_53)
  show ?thesis
  proof (cases "\<bar>x\<bar> < 2 ^ 53")
    case True
    then have "nat \<bar>x\<bar> < 2 ^ 53" by simp
    then show ?thesis by (simp add: to_double_def Let_def)
  next
    case False
    have p: "(2::int) ^ 53 = 9007199254740992" by simp
    from b False have "x = 9007199254740992 \<or> x = - 9007199254740992"
      unfolding p by linarith
    with top bot show ?thesis by auto
  qed
qed

lemma max_position_bound:
  assumes "\<forall>q \<in> set (questions d). \<bar>q_position q\<bar> < 2 ^ 53"
  shows "\<bar>max_position d\<bar> < 2 ^ 53"
proof (cases "questions d = []")
  case True
  then show ?thesis by (simp add: max_position_Max)
next
  case False
  then have "Max (q_position ` set (questions d)) \<in> q_position ` set (questions d)"
    by (intro Max_in) simp_all
  then obtain q where q: "q \<in> set (questions d)"
      "Max (q_position ` set (questions d)) = q_position q"
    by auto
  from assms q(1) have "\<bar>q_position q\<bar> < 2 ^ 53" by blast
  with q(2) False show ?thesis by (simp add: max_position_Max)
qed

lemma position_exact:
  assumes "\<forall>q \<in> set (questions d). \<bar>q_position q\<bar> < 2 ^ 53"
  shows "to_double (to_double (max_position d) + 1) =
           1 + (if questions d = [] then 0 else Max (q_position ` set (questions d)))"
proof -
  from max_position_bound [OF assms] have b: "\<bar>max_position d\<bar> < 2 ^ 53" .
  then have "to_double (max_position d) = max_position d"
    by (intro to_double_exact) simp
  moreover from b have "to_double (max_position d + 1) = max_position d + 1"
    by (intro to_double_exact) simp
  ultimately show ?thesis by (simp add: max_position_Max)
qed

lemma post_questions_valid:
  assumes "get_prop b ''text'' = Some (JStr s)" and "trim s \<noteq> []"
  shows "\<exists>i pos d'. post_questions d t b = (Reply 200 (QuestionCreated i (trim s) pos), d')
         \<and> questions d' = questions d @
             [\<lparr>q_id = i, q_text = trim s, q_position = pos, q_created_at = t\<rparr>]
         \<and> pos = to_double (to_double (max_position d) + 1)
         \<and> ((\<forall>q \<in> set (questions d). \<bar>q_position q\<bar> < 2 ^ 53) \<longrightarrow>
              pos = 1 + (if questions d = [] then 0 else Max (q_position ` set (questions d))))
         \<and> responses d' = responses d \<and> answers d' = answers d \<and> admin d' = admin d"
  using assms position_exact [of d]
  by (simp add: post_questions_def opt_trim_def insert_question_def Let_def)

lemma delete_question_absent:
  "\<forall>q \<in> set (questions d). Some (q_id q) \<noteq> qid \<Longrightarrow> delete_question d qid = d"
  by (simp add: delete_question_def)

lemma update_question_absent:
  "\<forall>q \<in> set (questions d). Some (q_id q) \<noteq> qid \<Longrightarrow> update_question d t qid = d"
proof -
  assume a: "\<forall>q \<in> set (questions d). Some (q_id q) \<noteq> qid"
  then have "map (\<lambda>q. if Some (q_id q) = qid then q\<lparr>q_text := t\<rparr> else q) (questions d) = questions d"
    by (induction "questions d") (auto simp: map_idI)
  then show ?thesis by (simp add: update_question_def)
qed

section \<open>Facts about the answers table, the counts and the ordering\<close>

lemma closed_values_iff:
  "closed_values d \<longleftrightarrow>
     (\<forall>a \<in> set (answers d). a_value a = None \<or> a_value a = Some ''topp'' \<or> a_value a = Some ''flash'')"
  by (simp add: closed_values_def accepted_def list_all_iff)

lemma closed_values_same: "answers d' = answers d \<Longrightarrow> closed_values d' = closed_values d"
  by (simp add: closed_values_def)

lemma closed_insert_answer:
  "closed_values d \<Longrightarrow> insert_answer d rid q (safeVal v) = Some d' \<Longrightarrow> closed_values d'"
  using accepted_safeVal [of v]
  by (auto simp: insert_answer_def closed_values_def Let_def split: if_splits)

lemma closed_insert_answers:
  "closed_values d \<Longrightarrow> closed_values (snd (insert_answers num rid es d))"
proof (induction es arbitrary: d)
  case Nil
  then show ?case by simp
next
  case (Cons e es)
  obtain k v where e: "e = (k, v)" by (cases e)
  show ?case
  proof (cases "insert_answer d rid (to_number num k) (safeVal v)")
    case None
    with Cons.prems e show ?thesis by simp
  next
    case (Some d1)
    with Cons.prems have "closed_values d1" by (rule closed_insert_answer)
    then have "closed_values (snd (insert_answers num rid es d1))" by (rule Cons.IH)
    with Some e show ?thesis by simp
  qed
qed

lemma closed_insert_response:
  "closed_values d \<Longrightarrow> closed_values (snd (insert_response d t n sc))"
  by (simp add: insert_response_def closed_values_def Let_def)

lemma closed_post_responses:
  assumes "closed_values d"
  shows "closed_values (snd (post_responses num d t b))"
proof (cases "opt_trim (get_prop b ''name'')")
  case Undefined
  with assms show ?thesis by (simp add: post_responses_def)
next
  case TypeError
  with assms show ?thesis by (simp add: post_responses_def)
next
  case (Trimmed n)
  show ?thesis
  proof (cases "n = [] \<or> \<not> truthy (get_prop b ''answers'') \<or> \<not> typeof_object (get_prop b ''answers'')")
    case True
    with Trimmed assms show ?thesis by (auto simp: post_responses_def)
  next
    case False
    let ?ans = "the (get_prop b ''answers'')"
    obtain rid d1 where ir: "insert_response d t n (score_of ?ans) = (rid, d1)"
      by (cases "insert_response d t n (score_of ?ans)")
    obtain ok d2 where ia: "insert_answers num rid (object_entries ?ans) d1 = (ok, d2)"
      by (cases "insert_answers num rid (object_entries ?ans) d1")
    from closed_insert_response [OF assms, of t n "score_of ?ans"] ir
    have "closed_values d1" by simp
    from closed_insert_answers [OF this, of num rid "object_entries ?ans"] ia
    have "closed_values d2" by simp
    moreover have "snd (post_responses num d t b) = d2"
      using False Trimmed ir ia by (simp add: post_responses_def Let_def)
    ultimately show ?thesis by simp
  qed
qed

lemma answers_post_questions: "answers (snd (post_questions d t b)) = answers d"
  by (simp add: post_questions_def insert_question_def Let_def split: trimmed.splits)

lemma answers_put_questions: "answers (snd (put_questions d q b)) = answers d"
  by (simp add: put_questions_def update_question_def split: trimmed.splits)

lemma answers_delete_questions: "answers (snd (delete_questions d q)) = answers d"
  by (simp add: delete_questions_def delete_question_def)

lemma closed_delete_responses:
  "closed_values d \<Longrightarrow> closed_values (snd (delete_responses d rid))"
  by (simp add: delete_responses_def delete_response_def delete_answers_of_def
      closed_values_def list_all_iff)

lemma answers_seed_fold:
  "answers (fold (\<lambda>(x, i) d'. snd (insert_question d' t x i)) xs d) = answers d"
  by (induction xs arbitrary: d) (auto simp: insert_question_def Let_def)

lemma answers_seed_questions: "answers (seed_questions t d) = answers d"
  by (simp add: seed_questions_def answers_seed_fold)

lemma closed_start_session: "closed_values d \<Longrightarrow> closed_values (db (start_session h t d))"
  by (simp add: start_session_def closed_values_def answers_seed_questions seed_admin_def)

lemma closed_start_static: "closed_values d \<Longrightarrow> closed_values (start_static t d)"
  by (simp add: start_static_def closed_values_def answers_seed_questions)

lemma closed_empty: "closed_values empty_db"
  by (simp add: closed_values_def empty_db_def)

lemma answers_login: "db (snd (post_admin_login cmp st tk b)) = db st"
  by (simp add: post_admin_login_def split: option.splits json.splits)

lemma closed_handle_session:
  assumes "closed_values (db st)"
  shows "closed_values (db (snd (handle_session num cmp st req)))"
  using assms closed_post_responses [OF assms, of num "req_time req" "req_body req"]
    closed_delete_responses [OF assms]
    closed_values_same [OF answers_post_questions, of "db st" "req_time req" "req_body req"]
    closed_values_same [OF answers_put_questions, of "db st" _ "req_body req"]
    closed_values_same [OF answers_delete_questions, of "db st"]
  by (cases "route req") (simp_all add: handle_session_def on_db_def answers_login)

lemma closed_handle_static:
  assumes "closed_values d"
  shows "closed_values (snd (handle_static num env d req))"
  using assms closed_post_responses [OF assms, of num "req_time req" "req_body req"]
    closed_values_same [OF answers_post_questions, of d "req_time req" "req_body req"]
    closed_values_same [OF answers_put_questions, of d _ "req_body req"]
    closed_values_same [OF answers_delete_questions, of d]
  by (cases "route req") (simp_all add: handle_static_def)

lemma reachable_session_closed: "reachable_session num cmp st \<Longrightarrow> closed_values (db st)"
proof (induction rule: reachable_session.induct)
  case (boot h t)
  show ?case by (rule closed_start_session [OF closed_empty])
next
  case (request st req)
  then show ?case by (simp add: closed_handle_session)
next
  case (expire st token)
  then show ?case by simp
next
  case (restart st h t)
  then show ?case by (simp add: closed_start_session)
qed

lemma reachable_static_closed: "reachable_static num env d \<Longrightarrow> closed_values d"
proof (induction rule: reachable_static.induct)
  case (boot t)
  show ?case by (rule closed_start_static [OF closed_empty])
next
  case (request d req)
  then show ?case by (simp add: closed_handle_static)
next
  case (restart d t)
  then show ?case by (simp add: closed_start_static)
qed





lemma by_score_desc_sorted:
  "sorted_wrt (\<lambda>a b. r_score b \<le> r_score a) (by_score_desc rs)"
proof -
  have "sorted (map (\<lambda>r. - r_score r) (by_score_desc rs))"
    by (simp add: by_score_desc_def)
  then show ?thesis by (simp add: sorted_map)
qed

section \<open>C1: the score of a submission\<close>

text \<open>
  C1. A submission that passes the name check and whose \<^verbatim>\<open>answers\<close> field is a
  non-null object (an object or an array) stores a response row whose score is the sum,
  over all submitted answer values, of 2 for \<^verbatim>\<open>"topp"\<close>, 3 for \<^verbatim>\<open>"flash"\<close> and 0
  for any other value, whatever the keys are; the reply, when the handler sends one,
  carries the same score. For the answers \<^verbatim>\<open>{1:"topp", 2:"flash", 3:"bogus"}\<close> the
  score is 5 and the row stored for question 3 holds NULL. Both variants pass a
  \<^verbatim>\<open>POST /api/responses\<close> to this handler without consulting the gate.
\<close>

theorem C1_score_is_sum:
  assumes "opt_trim (get_prop b ''name'') = Trimmed n" and "n \<noteq> []"
    and "get_prop b ''answers'' = Some ans" and "is_object ans"
  shows "(route req = POST_responses \<longrightarrow>
       handle_session num cmp st req =
         (fst (post_responses num (db st) (req_time req) (req_body req)),
          st\<lparr>db := snd (post_responses num (db st) (req_time req) (req_body req))\<rparr>)
       \<and> handle_static num env d0 req = post_responses num d0 (req_time req) (req_body req))
   \<and> (\<exists>rid d'.
      snd (post_responses num d t b) = d'
      \<and> responses d' = responses d @
          [\<lparr>r_id = rid, r_name = n,
            r_score = (\<Sum>v\<leftarrow>object_values ans.
                         if v = JStr ''topp'' then 2 else if v = JStr ''flash'' then 3 else 0),
            r_submitted_at = t\<rparr>]
      \<and> (fst (post_responses num d t b) = Raised
         \<or> fst (post_responses num d t b) = Reply 200 (ResponseCreated rid
              (\<Sum>v\<leftarrow>object_values ans.
                 if v = JStr ''topp'' then 2 else if v = JStr ''flash'' then 3 else 0)))
      \<and> (ans = JObj [(''1'', JStr ''topp''), (''2'', JStr ''flash''), (''3'', JStr ''bogus'')]
           \<and> num ''1'' = Fin 1 \<and> num ''2'' = Fin 2 \<and> num ''3'' = Fin 3 \<longrightarrow>
         fst (post_responses num d t b) = Reply 200 (ResponseCreated rid 5)
         \<and> (\<exists>a1 a2 a3. answers d' = answers d @ [a1, a2, a3]
               \<and> answer_cols a1 = (rid, Fin 1, Some ''topp'')
               \<and> answer_cols a2 = (rid, Fin 2, Some ''flash'')
               \<and> answer_cols a3 = (rid, Fin 3, None))))"
    (is "?routing \<and> ?core")
proof -
  have core: ?core
  proof -
  obtain rid d1 where ir: "insert_response d t n (score_of ans) = (rid, d1)"
    by (cases "insert_response d t n (score_of ans)")
  obtain ok d2 where ia: "insert_answers num rid (object_entries ans) d1 = (ok, d2)"
    by (cases "insert_answers num rid (object_entries ans) d1")
  have run: "post_responses num d t b =
      (if ok then Reply 200 (ResponseCreated rid (score_of ans)) else Raised, d2)"
    by (rule post_responses_accept [OF assms ir ia])
  have resp: "responses d2 = responses d @
      [\<lparr>r_id = rid, r_name = n, r_score = score_of ans, r_submitted_at = t\<rparr>]"
    using insert_response_eq [OF ir] insert_answers_frame [OF ia] by simp
  have ex: "fst (post_responses num d t b) = Reply 200 (ResponseCreated rid 5)
         \<and> (\<exists>a1 a2 a3. answers d2 = answers d @ [a1, a2, a3]
               \<and> answer_cols a1 = (rid, Fin 1, Some ''topp'')
               \<and> answer_cols a2 = (rid, Fin 2, Some ''flash'')
               \<and> answer_cols a3 = (rid, Fin 3, None))"
    if ans: "ans = JObj [(''1'', JStr ''topp''), (''2'', JStr ''flash''), (''3'', JStr ''bogus'')]"
      and n: "num ''1'' = Fin 1" "num ''2'' = Fin 2" "num ''3'' = Fin 3"
  proof -
    from insert_answers_rows [OF ia] obtain rows where
      rows: "answers d2 = answers d1 @ rows"
        "map answer_cols rows =
           map (\<lambda>(k, v). (rid, to_number num k, safeVal v)) (take (length rows) (object_entries ans))"
        "ok \<longleftrightarrow> length rows = length (object_entries ans)"
        "ok \<longleftrightarrow> (\<forall>(k, v) \<in> set (object_entries ans). to_number num k \<noteq> NaN)"
      by blast
    have ok: ok
      using rows(4) ans n by (simp add: object_entries_def to_number_def)
    with rows(3) have len: "length rows = length (object_entries ans)" by simp
    have "map answer_cols rows =
        [(rid, Fin 1, Some ''topp''), (rid, Fin 2, Some ''flash''), (rid, Fin 3, None)]"
      using rows(2) len ans n by (simp add: object_entries_def to_number_def safeVal_def)
    from three_rows [OF this] obtain a1 a2 a3 where
      "rows = [a1, a2, a3]" "answer_cols a1 = (rid, Fin 1, Some ''topp'')"
      "answer_cols a2 = (rid, Fin 2, Some ''flash'')" "answer_cols a3 = (rid, Fin 3, None)"
      by blast
    moreover have "score_of ans = 5"
      using ans by (simp add: score_of_def object_values_def reward_def)
    ultimately show ?thesis
      using run ok rows(1) insert_response_eq [OF ir] by simp
  qed
  show ?thesis
    apply (rule exI [of _ rid], rule exI [of _ d2])
    using run resp ex by (auto simp: score_of_sum)
  qed
  have routing: ?routing
    using submission_routes [of req num cmp st env d0] by blast
  from routing core show ?thesis by (rule conjI)
qed

theorem C1_score_is_sum_witness:
  "opt_trim (get_prop sample_submission ''name'') = Trimmed ''Ann''
   \<and> get_prop sample_submission ''answers'' = Some sample_answers
   \<and> is_object sample_answers
   \<and> (\<exists>rid a1 a2 a3.
         fst (post_responses Number_sample empty_db 7 sample_submission)
           = Reply 200 (ResponseCreated rid 5)
         \<and> answers (snd (post_responses Number_sample empty_db 7 sample_submission)) = [a1, a2, a3]
         \<and> answer_cols a3 = (rid, Fin 3, None))
   \<and> handle_session Number_sample (\<lambda>p h. False) sample_state
        (sample_request POST_responses None sample_submission)
      = (fst (post_responses Number_sample sample_db 0 sample_submission),
         sample_state\<lparr>db := snd (post_responses Number_sample sample_db 0 sample_submission)\<rparr>)
   \<and> handle_static Number_sample None empty_db
        (sample_request POST_responses None sample_submission)
      = post_responses Number_sample empty_db 0 sample_submission"
proof -
  have h1: "opt_trim (get_prop sample_submission ''name'') = Trimmed ''Ann''"
    by (simp add: sample_submission_def opt_trim_def trim_def white_space_def strip.simps ws_len_def)
  have h2: "''Ann'' \<noteq> []" by simp
  have h3: "get_prop sample_submission ''answers'' = Some sample_answers"
    by (simp add: sample_submission_def)
  have h4: "is_object sample_answers"
    by (simp add: sample_answers_def is_object_def)
  have n: "Number_sample ''1'' = Fin 1" "Number_sample ''2'' = Fin 2" "Number_sample ''3'' = Fin 3"
    by (simp_all add: Number_sample_def)
  from C1_score_is_sum [where num = Number_sample and d = empty_db and t = 7,
      OF h1 h2 h3 h4, THEN conjunct2] n
  have core: "\<exists>rid a1 a2 a3.
         fst (post_responses Number_sample empty_db 7 sample_submission)
           = Reply 200 (ResponseCreated rid 5)
         \<and> answers (snd (post_responses Number_sample empty_db 7 sample_submission)) = [a1, a2, a3]
         \<and> answer_cols a3 = (rid, Fin 3, None)"
    by (auto simp: sample_answers_def empty_db_def)
  have rt: "route (sample_request POST_responses None sample_submission) = POST_responses"
    by (simp add: sample_request_def)
  from C1_score_is_sum [where req = "sample_request POST_responses None sample_submission"
      and num = Number_sample and cmp = "\<lambda>p h. False" and st = sample_state and env = None
      and d0 = empty_db, OF h1 h2 h3 h4, THEN conjunct1, THEN mp, OF rt]
  have routes: "handle_session Number_sample (\<lambda>p h. False) sample_state
        (sample_request POST_responses None sample_submission)
      = (fst (post_responses Number_sample sample_db 0 sample_submission),
         sample_state\<lparr>db := snd (post_responses Number_sample sample_db 0 sample_submission)\<rparr>)
   \<and> handle_static Number_sample None empty_db
        (sample_request POST_responses None sample_submission)
      = post_responses Number_sample empty_db 0 sample_submission"
    by (simp add: sample_request_def sample_state_def)
  from h1 h3 h4 core routes show ?thesis by blast
qed

section \<open>C2: the authorization gate\<close>




section \<open>C3: the position of a new question\<close>

text \<open>
  C3, as the code has it. In both variants an authorized question creation whose text
  is a string that is not empty after trimming stores the position it returns, and
  that position is 1 + m, where m is the maximum position among the existing questions,
  or 0 when there are none, provided every existing position is of magnitude below
  2^53, where the double arithmetic of \<^verbatim>\<open>Number(m) + 1\<close> is exact.
\<close>

theorem C3_position:
  assumes "route req = POST_questions"
    and "get_prop (req_body req) ''text'' = Some (JStr s)" and "trim s \<noteq> []"
  shows "(requireAdmin (activeSessions st) (authorization req) \<longrightarrow>
           (\<exists>i pos d'. handle_session num cmp st req =
               (Reply 200 (QuestionCreated i (trim s) pos), st\<lparr>db := d'\<rparr>)
             \<and> questions d' = questions (db st) @
                 [\<lparr>q_id = i, q_text = trim s, q_position = pos, q_created_at = req_time req\<rparr>]
             \<and> ((\<forall>q \<in> set (questions (db st)). \<bar>q_position q\<bar> < 2 ^ 53) \<longrightarrow>
                  pos = 1 + (if questions (db st) = [] then 0
                             else Max (q_position ` set (questions (db st)))))))
       \<and> (requireAdmin_static env (authorization req) \<longrightarrow>
           (\<exists>i pos d'. handle_static num env d req =
               (Reply 200 (QuestionCreated i (trim s) pos), d')
             \<and> questions d' = questions d @
                 [\<lparr>q_id = i, q_text = trim s, q_position = pos, q_created_at = req_time req\<rparr>]
             \<and> ((\<forall>q \<in> set (questions d). \<bar>q_position q\<bar> < 2 ^ 53) \<longrightarrow>
                  pos = 1 + (if questions d = [] then 0
                             else Max (q_position ` set (questions d))))))"
proof (intro conjI impI)
  assume ok: "requireAdmin (activeSessions st) (authorization req)"
  from post_questions_valid [OF assms(2,3), of "db st" "req_time req"]
  obtain i pos d' where
    r: "post_questions (db st) (req_time req) (req_body req) =
           (Reply 200 (QuestionCreated i (trim s) pos), d')"
       "questions d' = questions (db st) @
             [\<lparr>q_id = i, q_text = trim s, q_position = pos, q_created_at = req_time req\<rparr>]"
       "(\<forall>q \<in> set (questions (db st)). \<bar>q_position q\<bar> < 2 ^ 53) \<longrightarrow>
          pos = 1 + (if questions (db st) = [] then 0
                     else Max (q_position ` set (questions (db st))))"
    by blast
  have "handle_session num cmp st req =
      on_db st (post_questions (db st) (req_time req) (req_body req))"
    using ok assms(1) by (simp add: handle_session_def)
  with r(1) have "handle_session num cmp st req =
      (Reply 200 (QuestionCreated i (trim s) pos), st\<lparr>db := d'\<rparr>)"
    by (simp add: on_db_def)
  with r(2,3) show "\<exists>i pos d'. handle_session num cmp st req =
               (Reply 200 (QuestionCreated i (trim s) pos), st\<lparr>db := d'\<rparr>)
             \<and> questions d' = questions (db st) @
                 [\<lparr>q_id = i, q_text = trim s, q_position = pos, q_created_at = req_time req\<rparr>]
             \<and> ((\<forall>q \<in> set (questions (db st)). \<bar>q_position q\<bar> < 2 ^ 53) \<longrightarrow>
                  pos = 1 + (if questions (db st) = [] then 0
                             else Max (q_position ` set (questions (db st)))))"
    by blast
next
  assume ok: "requireAdmin_static env (authorization req)"
  from post_questions_valid [OF assms(2,3), of d "req_time req"]
  obtain i pos d' where
    r: "post_questions d (req_time req) (req_body req) =
           (Reply 200 (QuestionCreated i (trim s) pos), d')"
       "questions d' = questions d @
             [\<lparr>q_id = i, q_text = trim s, q_position = pos, q_created_at = req_time req\<rparr>]"
       "(\<forall>q \<in> set (questions d). \<bar>q_position q\<bar> < 2 ^ 53) \<longrightarrow>
          pos = 1 + (if questions d = [] then 0 else Max (q_position ` set (questions d)))"
    by blast
  have "handle_static num env d req = post_questions d (req_time req) (req_body req)"
    using ok assms(1) by (simp add: handle_static_def)
  with r show "\<exists>i pos d'. handle_static num env d req =
               (Reply 200 (QuestionCreated i (trim s) pos), d')
             \<and> questions d' = questions d @
                 [\<lparr>q_id = i, q_text = trim s, q_position = pos, q_created_at = req_time req\<rparr>]
             \<and> ((\<forall>q \<in> set (questions d). \<bar>q_position q\<bar> < 2 ^ 53) \<longrightarrow>
                  pos = 1 + (if questions d = [] then 0
                             else Max (q_position ` set (questions d))))"
    by (intro exI [of _ i] exI [of _ pos] exI [of _ d']) simp
qed

theorem C3_position_witness:
  "get_prop (JObj [(''text'', JStr '' Green Slab '')]) ''text'' = Some (JStr '' Green Slab '')
   \<and> trim '' Green Slab '' = ''Green Slab''
   \<and> requireAdmin (activeSessions sample_state) (Some ''Bearer tok'')
   \<and> requireAdmin_static None (Some ''Bearer admin123'')
   \<and> list_all (\<lambda>q. \<bar>q_position q\<bar> < 2 ^ 53) (questions sample_db)
   \<and> (\<exists>i st'. handle_session Number_sample (\<lambda>p h. False) sample_state
          (sample_request POST_questions (Some ''Bearer tok'') (JObj [(''text'', JStr '' Green Slab '')]))
        = (Reply 200 (QuestionCreated i ''Green Slab'' 5), st'))
   \<and> (\<exists>i d'. handle_static Number_sample None empty_db
          (sample_request POST_questions (Some ''Bearer admin123'') (JObj [(''text'', JStr '' Green Slab '')]))
        = (Reply 200 (QuestionCreated i ''Green Slab'' 1), d'))"
proof -
  let ?b = "JObj [(''text'', JStr '' Green Slab '')]"
  have h1: "get_prop ?b ''text'' = Some (JStr '' Green Slab '')" by simp
  have tr: "trim '' Green Slab '' = ''Green Slab''"
    by (simp add: trim_def white_space_def strip.simps ws_len_def)
  have a1: "requireAdmin (activeSessions sample_state) (Some ''Bearer tok'')"
    by (simp add: requireAdmin_def sample_state_def)
  have a2: "requireAdmin_static None (Some ''Bearer admin123'')"
    by (simp add: requireAdmin_static_def ADMIN_PASSWORD_def)
  have b1: "\<forall>q \<in> set (questions (db sample_state)). \<bar>q_position q\<bar> < 2 ^ 53"
    by (simp add: sample_state_def sample_db_def)
  have b2: "\<forall>q \<in> set (questions empty_db). \<bar>q_position q\<bar> < 2 ^ 53"
    by (simp add: empty_db_def)
  have b3: "list_all (\<lambda>q. \<bar>q_position q\<bar> < 2 ^ 53) (questions sample_db)"
    by (simp add: sample_db_def)
  have ne: "trim '' Green Slab '' \<noteq> []" using tr by simp
  let ?r1 = "sample_request POST_questions (Some ''Bearer tok'') ?b"
  let ?r2 = "sample_request POST_questions (Some ''Bearer admin123'') ?b"
  have r1: "route ?r1 = POST_questions"
      "get_prop (req_body ?r1) ''text'' = Some (JStr '' Green Slab '')"
      "requireAdmin (activeSessions sample_state) (authorization ?r1)"
    using a1 by (simp_all add: sample_request_def)
  have r2: "route ?r2 = POST_questions"
      "get_prop (req_body ?r2) ''text'' = Some (JStr '' Green Slab '')"
      "requireAdmin_static None (authorization ?r2)"
    using a2 by (simp_all add: sample_request_def)
  from C3_position [OF r1(1,2) ne, where st = sample_state and num = Number_sample
      and cmp = "\<lambda>p h. False", THEN conjunct1, THEN mp, OF r1(3)]
  obtain i pos st' where
    p: "handle_session Number_sample (\<lambda>p h. False) sample_state ?r1 =
          (Reply 200 (QuestionCreated i (trim '' Green Slab '') pos), st')"
       "(\<forall>q \<in> set (questions (db sample_state)). \<bar>q_position q\<bar> < 2 ^ 53) \<longrightarrow>
          pos = 1 + (if questions (db sample_state) = [] then 0
                     else Max (q_position ` set (questions (db sample_state))))"
    by blast
  from p(2) b1 have "pos = 5" by (simp add: sample_state_def sample_db_def)
  with p(1) tr have s: "\<exists>i st'. handle_session Number_sample (\<lambda>p h. False) sample_state ?r1
        = (Reply 200 (QuestionCreated i ''Green Slab'' 5), st')"
    by simp
  from C3_position [OF r2(1,2) ne, where d = empty_db and num = Number_sample
      and env = None, THEN conjunct2, THEN mp, OF r2(3)]
  obtain k pos2 d' where
    p2: "handle_static Number_sample None empty_db ?r2 =
          (Reply 200 (QuestionCreated k (trim '' Green Slab '') pos2), d')"
       "(\<forall>q \<in> set (questions empty_db). \<bar>q_position q\<bar> < 2 ^ 53) \<longrightarrow>
          pos2 = 1 + (if questions empty_db = [] then 0
                      else Max (q_position ` set (questions empty_db)))"
    by blast
  from p2(2) b2 have "pos2 = 1" by (simp add: empty_db_def)
  with p2(1) tr have t: "\<exists>i d'. handle_static Number_sample None empty_db ?r2
        = (Reply 200 (QuestionCreated i ''Green Slab'' 1), d')"
    by simp
  from h1 tr a1 a2 b3 s t show ?thesis by blast
qed

text \<open>
  C3 as stated fails beyond the exact range of doubles: with a question at position
  2^53 = 9007199254740992 the sum \<^verbatim>\<open>Number(m) + 1\<close> is rounded back to 2^53, so the
  new question is stored and returned at position 9007199254740992 and not at
  1 + 9007199254740992.
\<close>

theorem C3_counterexample:
  "requireAdmin_static None (Some ''Bearer admin123'')
   \<and> map q_position (questions large_db) = [9007199254740992]
   \<and> fst (handle_static Number_sample None large_db
        (sample_request POST_questions (Some ''Bearer admin123'') (JObj [(''text'', JStr ''New'')])))
      = Reply 200 (QuestionCreated 2 ''New'' 9007199254740992)
   \<and> map q_position (questions (snd (handle_static Number_sample None large_db
        (sample_request POST_questions (Some ''Bearer admin123'') (JObj [(''text'', JStr ''New'')])))))
      = [9007199254740992, 9007199254740992]
   \<and> (9007199254740992 :: int) \<noteq> 1 + 9007199254740992"
proof -
  have a: "requireAdmin_static None (Some ''Bearer admin123'')"
    by (simp add: requireAdmin_static_def ADMIN_PASSWORD_def)
  have tr: "trim ''New'' = ''New''"
    by (simp add: trim_def white_space_def strip.simps ws_len_def)
  have m: "max_position large_db = 9007199254740992"
    by (simp add: max_position_def large_db_def empty_db_def)
  have "to_double 9007199254740992 = 9007199254740992"
    by (rule to_double_exact) simp
  with m to_double_beyond
  have pos: "to_double (to_double (max_position large_db) + 1) = 9007199254740992"
    by simp
  have run: "handle_static Number_sample None large_db
        (sample_request POST_questions (Some ''Bearer admin123'') (JObj [(''text'', JStr ''New'')]))
      = post_questions large_db 0 (JObj [(''text'', JStr ''New'')])"
    using a by (simp add: handle_static_def sample_request_def)
  have post: "post_questions large_db 0 (JObj [(''text'', JStr ''New'')])
      = (Reply 200 (QuestionCreated 2 ''New'' 9007199254740992),
         snd (insert_question large_db 0 ''New'' 9007199254740992))"
    using tr pos
    by (simp add: post_questions_def opt_trim_def Let_def insert_question_def next_rowid_def
        large_db_def empty_db_def)
  have ins: "map q_position (questions (snd (insert_question large_db 0 ''New'' 9007199254740992)))
      = [9007199254740992, 9007199254740992]"
    by (simp add: insert_question_def Let_def large_db_def empty_db_def)
  have q: "map q_position (questions large_db) = [9007199254740992]"
    by (simp add: large_db_def empty_db_def)
  from a q run post ins show ?thesis by simp
qed

section \<open>C4: the stored answer values\<close>

text \<open>
  C4. In every state either variant reaches from the empty database (boot, requests,
  expiry of a session, restart), the value of every answer row is \<^verbatim>\<open>"topp"\<close>,
  \<^verbatim>\<open>"flash"\<close> or NULL; the value stored for a submitted value is the value itself
  when it is one of the two tokens and NULL otherwise, so another value is stored as
  NULL, not rejected.
\<close>

theorem C4_answer_values_closed:
  "(reachable_session num cmp st \<longrightarrow>
      (\<forall>a \<in> set (answers (db st)).
         a_value a = None \<or> a_value a = Some ''topp'' \<or> a_value a = Some ''flash''))
   \<and> (reachable_static num env d \<longrightarrow>
      (\<forall>a \<in> set (answers d).
         a_value a = None \<or> a_value a = Some ''topp'' \<or> a_value a = Some ''flash''))
   \<and> safeVal v = (if v = JStr ''topp'' then Some ''topp''
                   else if v = JStr ''flash'' then Some ''flash'' else None)"
  using reachable_session_closed [of num cmp st] reachable_static_closed [of num env d]
  by (simp add: closed_values_iff safeVal_def)

theorem C4_answer_values_closed_witness:
  "reachable_session Number_sample (\<lambda>p h. False) reached_session
   \<and> reachable_static Number_sample None reached_static
   \<and> map a_value (answers (db reached_session)) = [Some ''topp'', Some ''flash'', None]
   \<and> map a_value (answers reached_static) = [Some ''topp'', Some ''flash'', None]
   \<and> list_all (\<lambda>a. a_value a = None \<or> a_value a = Some ''topp'' \<or> a_value a = Some ''flash'')
        (answers (db reached_session))
   \<and> list_all (\<lambda>a. a_value a = None \<or> a_value a = Some ''topp'' \<or> a_value a = Some ''flash'')
        (answers reached_static)"
proof -
  have r1: "reachable_session Number_sample (\<lambda>p h. False) reached_session"
    unfolding reached_session_def
    by (rule reachable_session.request) (rule reachable_session.boot)
  have r2: "reachable_static Number_sample None reached_static"
    unfolding reached_static_def
    by (rule reachable_static.request) (rule reachable_static.boot)
  have v1: "map a_value (answers (db reached_session)) = [Some ''topp'', Some ''flash'', None]"
    by code_simp
  have v2: "map a_value (answers reached_static) = [Some ''topp'', Some ''flash'', None]"
    by code_simp
  from C4_answer_values_closed [of Number_sample "\<lambda>p h. False" reached_session None reached_static] r1 r2
  have "list_all (\<lambda>a. a_value a = None \<or> a_value a = Some ''topp'' \<or> a_value a = Some ''flash'')
        (answers (db reached_session))"
   and "list_all (\<lambda>a. a_value a = None \<or> a_value a = Some ''topp'' \<or> a_value a = Some ''flash'')
        (answers reached_static)"
    by (simp_all add: list_all_iff)
  with r1 r2 v1 v2 show ?thesis by simp
qed

section \<open>C5: deleting a response\<close>

text \<open>
  C5. In the session-token variant an authorized \<^verbatim>\<open>DELETE /api/responses/:id\<close>
  replies ok; afterwards no answer row with that response id and no response row with
  that id remain. The answers are deleted first, so already the intermediate database
  holds no answer of that response. All other answers and responses stay, in order,
  and the questions, the admin row, the counters and the sessions are unchanged.
\<close>

theorem C5_delete_response:
  assumes "route req = DELETE_responses rid"
    and "requireAdmin (activeSessions st) (authorization req)"
  shows "\<exists>d'. handle_session num cmp st req = (Reply 200 OkTrue, st\<lparr>db := d'\<rparr>)
      \<and> d' = delete_response (delete_answers_of (db st) rid) rid
      \<and> (\<forall>a \<in> set (answers d'). Some (a_response_id a) \<noteq> rid)
      \<and> (\<forall>r \<in> set (responses d'). Some (r_id r) \<noteq> rid)
      \<and> (\<forall>a \<in> set (answers (delete_answers_of (db st) rid)). Some (a_response_id a) \<noteq> rid)
      \<and> answers d' = filter (\<lambda>a. Some (a_response_id a) \<noteq> rid) (answers (db st))
      \<and> responses d' = filter (\<lambda>r. Some (r_id r) \<noteq> rid) (responses (db st))
      \<and> questions d' = questions (db st) \<and> admin d' = admin (db st)
      \<and> seq_questions d' = seq_questions (db st) \<and> seq_responses d' = seq_responses (db st)
      \<and> seq_answers d' = seq_answers (db st)"
  using assms
  by (simp add: handle_session_def on_db_def delete_responses_def delete_response_def
      delete_answers_of_def)

theorem C5_delete_response_witness:
  "requireAdmin (activeSessions sample_state) (Some ''Bearer tok'')
   \<and> handle_session Number_sample (\<lambda>p h. False) sample_state
        (sample_request (DELETE_responses (Some 1)) (Some ''Bearer tok'') (JObj []))
      = (Reply 200 OkTrue,
         sample_state\<lparr>db := sample_db
           \<lparr>responses := [\<lparr>r_id = 2, r_name = ''Bo'', r_score = 0, r_submitted_at = 2\<rparr>],
            answers := [\<lparr>a_id = 3, a_response_id = 2, a_question_id = Fin 1, a_value = None\<rparr>]\<rparr>\<rparr>)"
proof -
  have a1: "requireAdmin (activeSessions sample_state) (Some ''Bearer tok'')"
    by (simp add: requireAdmin_def sample_state_def)
  from C5_delete_response [where req = "sample_request (DELETE_responses (Some 1)) (Some ''Bearer tok'') (JObj [])"
      and rid = "Some 1" and st = sample_state and num = Number_sample and cmp = "\<lambda>p h. False"] a1
  obtain d' where
    r: "handle_session Number_sample (\<lambda>p h. False) sample_state
          (sample_request (DELETE_responses (Some 1)) (Some ''Bearer tok'') (JObj []))
        = (Reply 200 OkTrue, sample_state\<lparr>db := d'\<rparr>)"
       "d' = delete_response (delete_answers_of (db sample_state) (Some 1)) (Some 1)"
    by (auto simp: sample_request_def)
  from r(2) have "d' = sample_db
           \<lparr>responses := [\<lparr>r_id = 2, r_name = ''Bo'', r_score = 0, r_submitted_at = 2\<rparr>],
            answers := [\<lparr>a_id = 3, a_response_id = 2, a_question_id = Fin 1, a_value = None\<rparr>]\<rparr>"
    by (simp add: delete_response_def delete_answers_of_def sample_state_def sample_db_def)
  with r(1) a1 show ?thesis by simp
qed

section \<open>C6: deleting or updating a question that answers refer to or that is absent\<close>

text \<open>
  C6. In both variants an authorized \<^verbatim>\<open>DELETE /api/questions/:id\<close> replies ok
  whatever the answers table holds, and leaves the answers and responses unchanged; when
  no question has that id the database is unchanged. An authorized update with a text
  that is not blank, of an id no question has, replies ok and changes nothing.
\<close>

theorem C6_question_not_found:
  "(route req = DELETE_questions qid \<and> requireAdmin (activeSessions st) (authorization req) \<longrightarrow>
      (\<exists>d'. handle_session num cmp st req = (Reply 200 OkTrue, st\<lparr>db := d'\<rparr>)
         \<and> answers d' = answers (db st) \<and> responses d' = responses (db st)
         \<and> questions d' = filter (\<lambda>q. Some (q_id q) \<noteq> qid) (questions (db st))
         \<and> ((\<forall>q \<in> set (questions (db st)). Some (q_id q) \<noteq> qid) \<longrightarrow> d' = db st)))
   \<and> (route req = DELETE_questions qid \<and> requireAdmin_static env (authorization req) \<longrightarrow>
      (\<exists>d'. handle_static num env d req = (Reply 200 OkTrue, d')
         \<and> answers d' = answers d \<and> responses d' = responses d
         \<and> questions d' = filter (\<lambda>q. Some (q_id q) \<noteq> qid) (questions d)
         \<and> ((\<forall>q \<in> set (questions d). Some (q_id q) \<noteq> qid) \<longrightarrow> d' = d)))
   \<and> (route req = PUT_questions qid \<and> requireAdmin (activeSessions st) (authorization req)
       \<and> get_prop (req_body req) ''text'' = Some (JStr s) \<and> trim s \<noteq> []
       \<and> (\<forall>q \<in> set (questions (db st)). Some (q_id q) \<noteq> qid) \<longrightarrow>
      handle_session num cmp st req = (Reply 200 OkTrue, st))
   \<and> (route req = PUT_questions qid \<and> requireAdmin_static env (authorization req)
       \<and> get_prop (req_body req) ''text'' = Some (JStr s) \<and> trim s \<noteq> []
       \<and> (\<forall>q \<in> set (questions d). Some (q_id q) \<noteq> qid) \<longrightarrow>
      handle_static num env d req = (Reply 200 OkTrue, d))"
proof (intro conjI impI)
  assume "route req = DELETE_questions qid \<and> requireAdmin (activeSessions st) (authorization req)"
  then show "\<exists>d'. handle_session num cmp st req = (Reply 200 OkTrue, st\<lparr>db := d'\<rparr>)
       \<and> answers d' = answers (db st) \<and> responses d' = responses (db st)
       \<and> questions d' = filter (\<lambda>q. Some (q_id q) \<noteq> qid) (questions (db st))
       \<and> ((\<forall>q \<in> set (questions (db st)). Some (q_id q) \<noteq> qid) \<longrightarrow> d' = db st)"
    using delete_question_absent [of "db st" qid]
    by (intro exI [of _ "delete_question (db st) qid"])
      (simp add: handle_session_def on_db_def delete_questions_def delete_question_def)
next
  assume "route req = DELETE_questions qid \<and> requireAdmin_static env (authorization req)"
  then show "\<exists>d'. handle_static num env d req = (Reply 200 OkTrue, d')
         \<and> answers d' = answers d \<and> responses d' = responses d
         \<and> questions d' = filter (\<lambda>q. Some (q_id q) \<noteq> qid) (questions d)
         \<and> ((\<forall>q \<in> set (questions d). Some (q_id q) \<noteq> qid) \<longrightarrow> d' = d)"
    using delete_question_absent [of d qid]
    by (intro exI [of _ "delete_question d qid"])
      (simp add: handle_static_def delete_questions_def delete_question_def)
next
  assume "route req = PUT_questions qid \<and> requireAdmin (activeSessions st) (authorization req)
       \<and> get_prop (req_body req) ''text'' = Some (JStr s) \<and> trim s \<noteq> []
       \<and> (\<forall>q \<in> set (questions (db st)). Some (q_id q) \<noteq> qid)"
  then show "handle_session num cmp st req = (Reply 200 OkTrue, st)"
    using update_question_absent [of "db st" qid "trim s"]
    by (simp add: handle_session_def on_db_def put_questions_def opt_trim_def)
next
  assume "route req = PUT_questions qid \<and> requireAdmin_static env (authorization req)
       \<and> get_prop (req_body req) ''text'' = Some (JStr s) \<and> trim s \<noteq> []
       \<and> (\<forall>q \<in> set (questions d). Some (q_id q) \<noteq> qid)"
  then show "handle_static num env d req = (Reply 200 OkTrue, d)"
    using update_question_absent [of d qid "trim s"]
    by (simp add: handle_static_def put_questions_def opt_trim_def)
qed

theorem C6_question_not_found_witness:
  "requireAdmin (activeSessions sample_state) (Some ''Bearer tok'')
   \<and> requireAdmin_static None (Some ''Bearer admin123'')
   \<and> trim ''New'' = ''New''
   \<and> (\<exists>d'. handle_session Number_sample (\<lambda>p h. False) sample_state
          (sample_request (DELETE_questions (Some 1)) (Some ''Bearer tok'') (JObj []))
        = (Reply 200 OkTrue, sample_state\<lparr>db := d'\<rparr>)
        \<and> answers d' = answers sample_db \<and> map q_id (questions d') = [2])
   \<and> handle_static Number_sample None sample_db
          (sample_request (DELETE_questions (Some 9)) (Some ''Bearer admin123'') (JObj []))
        = (Reply 200 OkTrue, sample_db)
   \<and> handle_session Number_sample (\<lambda>p h. False) sample_state
          (sample_request (PUT_questions (Some 9)) (Some ''Bearer tok'') (JObj [(''text'', JStr ''New'')]))
        = (Reply 200 OkTrue, sample_state)
   \<and> handle_static Number_sample None sample_db
          (sample_request (PUT_questions None) (Some ''Bearer admin123'') (JObj [(''text'', JStr ''New'')]))
        = (Reply 200 OkTrue, sample_db)"
proof -
  let ?cmp = "\<lambda>(p::string) (h::string). False"
  have a1: "requireAdmin (activeSessions sample_state) (Some ''Bearer tok'')"
    by (simp add: requireAdmin_def sample_state_def)
  have a2: "requireAdmin_static None (Some ''Bearer admin123'')"
    by (simp add: requireAdmin_static_def ADMIN_PASSWORD_def)
  have tr: "trim ''New'' = ''New''"
    by (simp add: trim_def white_space_def strip.simps ws_len_def)
  let ?r = "sample_request (DELETE_questions (Some 1)) (Some ''Bearer tok'') (JObj [])"
  have "route ?r = DELETE_questions (Some 1)
      \<and> requireAdmin (activeSessions sample_state) (authorization ?r)"
    using a1 by (simp add: sample_request_def)
  from C6_question_not_found [where req = ?r and qid = "Some 1" and st = sample_state
      and num = Number_sample and cmp = ?cmp, THEN conjunct1, THEN mp, OF this]
  obtain d' where
    r: "handle_session Number_sample ?cmp sample_state ?r = (Reply 200 OkTrue, sample_state\<lparr>db := d'\<rparr>)"
       "answers d' = answers (db sample_state)"
       "questions d' = filter (\<lambda>q. Some (q_id q) \<noteq> Some 1) (questions (db sample_state))"
    by blast
  from r(2) have e1: "answers d' = answers sample_db" by (simp add: sample_state_def)
  from r(3) have e2: "map q_id (questions d') = [2]"
    by (simp add: sample_state_def sample_db_def)
  have w1: "\<exists>d'. handle_session Number_sample ?cmp sample_state ?r
        = (Reply 200 OkTrue, sample_state\<lparr>db := d'\<rparr>)
        \<and> answers d' = answers sample_db \<and> map q_id (questions d') = [2]"
    using r(1) e1 e2 by (intro exI [of _ d']) simp
  have w2: "handle_static Number_sample None sample_db
          (sample_request (DELETE_questions (Some 9)) (Some ''Bearer admin123'') (JObj []))
        = (Reply 200 OkTrue, sample_db)"
    using C6_question_not_found [where req = "sample_request (DELETE_questions (Some 9)) (Some ''Bearer admin123'') (JObj [])"
        and qid = "Some 9" and d = sample_db and num = Number_sample and env = None] a2
    by (auto simp: sample_request_def sample_db_def)
  have w3: "handle_session Number_sample ?cmp sample_state
          (sample_request (PUT_questions (Some 9)) (Some ''Bearer tok'') (JObj [(''text'', JStr ''New'')]))
        = (Reply 200 OkTrue, sample_state)"
    using C6_question_not_found [where req = "sample_request (PUT_questions (Some 9)) (Some ''Bearer tok'') (JObj [(''text'', JStr ''New'')])"
        and qid = "Some 9" and st = sample_state and num = Number_sample and cmp = ?cmp
        and s = "''New''"] a1 tr
    by (simp add: sample_request_def sample_state_def sample_db_def)
  have w4: "handle_static Number_sample None sample_db
          (sample_request (PUT_questions None) (Some ''Bearer admin123'') (JObj [(''text'', JStr ''New'')]))
        = (Reply 200 OkTrue, sample_db)"
    using C6_question_not_found [where req = "sample_request (PUT_questions None) (Some ''Bearer admin123'') (JObj [(''text'', JStr ''New'')])"
        and qid = None and d = sample_db and num = Number_sample and env = None
        and s = "''New''"] a2 tr
    by (simp add: sample_request_def sample_db_def)
  from a1 a2 tr w1 w2 w3 w4 show ?thesis by blast
qed

section \<open>C7: validation of a submission\<close>

text \<open>
  C7, as the code has it. A submission whose name is missing, \<^verbatim>\<open>null\<close> or a string
  of white space only is answered with status 400 and an error body, and nothing is
  stored; so is a submission whose name is a string that is not blank and whose
  \<^verbatim>\<open>answers\<close> field is missing or not an object. A submission that passes both
  checks and all of whose keys \<^verbatim>\<open>Number\<close> converts to a number is answered with
  status 200 and creates exactly one response row and one answer row per key. Both
  variants pass a \<^verbatim>\<open>POST /api/responses\<close> to this handler without consulting the gate.
\<close>

theorem C7_validation:
  "(route req = POST_responses \<longrightarrow>
       handle_session num cmp st req =
         (fst (post_responses num (db st) (req_time req) (req_body req)),
          st\<lparr>db := snd (post_responses num (db st) (req_time req) (req_body req))\<rparr>)
       \<and> handle_static num env d0 req = post_responses num d0 (req_time req) (req_body req))
   \<and> ((get_prop b ''name'' = None \<or> get_prop b ''name'' = Some JNull
      \<or> (\<exists>s. get_prop b ''name'' = Some (JStr s) \<and> trim s = [])
     \<longrightarrow> post_responses num d t b = (Reply 400 (ErrorBody ''name is required''), d))
   \<and> ((\<exists>s. get_prop b ''name'' = Some (JStr s) \<and> trim s \<noteq> [])
       \<and> (\<forall>ans. get_prop b ''answers'' = Some ans \<longrightarrow> \<not> is_object ans)
     \<longrightarrow> post_responses num d t b = (Reply 400 (ErrorBody ''answers is required''), d))
   \<and> ((\<exists>s. get_prop b ''name'' = Some (JStr s) \<and> trim s \<noteq> [])
       \<and> get_prop b ''answers'' = Some ans \<and> is_object ans
       \<and> (\<forall>(k, v) \<in> set (object_entries ans). to_number num k \<noteq> NaN)
     \<longrightarrow> (\<exists>rid d' row rows.
           post_responses num d t b = (Reply 200 (ResponseCreated rid (score_of ans)), d')
           \<and> responses d' = responses d @ [row]
           \<and> answers d' = answers d @ rows
           \<and> map answer_cols rows =
               map (\<lambda>(k, v). (rid, to_number num k, safeVal v)) (object_entries ans)
           \<and> questions d' = questions d \<and> admin d' = admin d)))"
    (is "?routing \<and> ?core")
proof -
  have core: ?core
  proof (intro conjI impI)
  assume "get_prop b ''name'' = None \<or> get_prop b ''name'' = Some JNull
      \<or> (\<exists>s. get_prop b ''name'' = Some (JStr s) \<and> trim s = [])"
  then show "post_responses num d t b = (Reply 400 (ErrorBody ''name is required''), d)"
    by (rule post_responses_no_name)
next
  assume "(\<exists>s. get_prop b ''name'' = Some (JStr s) \<and> trim s \<noteq> [])
       \<and> (\<forall>ans. get_prop b ''answers'' = Some ans \<longrightarrow> \<not> is_object ans)"
  then show "post_responses num d t b = (Reply 400 (ErrorBody ''answers is required''), d)"
    using post_responses_no_answers by blast
next
  assume a: "(\<exists>s. get_prop b ''name'' = Some (JStr s) \<and> trim s \<noteq> [])
       \<and> get_prop b ''answers'' = Some ans \<and> is_object ans
       \<and> (\<forall>(k, v) \<in> set (object_entries ans). to_number num k \<noteq> NaN)"
  then obtain s where s: "get_prop b ''name'' = Some (JStr s)" "trim s \<noteq> []" by blast
  from a have r: "get_prop b ''answers'' = Some ans" "is_object ans"
    "\<forall>(k, v) \<in> set (object_entries ans). to_number num k \<noteq> NaN" by blast+
  show "\<exists>rid d' row rows.
           post_responses num d t b = (Reply 200 (ResponseCreated rid (score_of ans)), d')
           \<and> responses d' = responses d @ [row]
           \<and> answers d' = answers d @ rows
           \<and> map answer_cols rows =
               map (\<lambda>(k, v). (rid, to_number num k, safeVal v)) (object_entries ans)
           \<and> questions d' = questions d \<and> admin d' = admin d"
    by (rule post_responses_stored [OF s r])
  qed
  have routing: ?routing
    using submission_routes [of req num cmp st env d0] by blast
  from routing core show ?thesis by (rule conjI)
qed

theorem C7_validation_witness:
  "post_responses Number_sample empty_db 0 (JObj [(''name'', JStr ''   '')])
      = (Reply 400 (ErrorBody ''name is required''), empty_db)
   \<and> post_responses Number_sample empty_db 0 (JObj [(''name'', JStr ''Ann''), (''answers'', JStr ''x'')])
      = (Reply 400 (ErrorBody ''answers is required''), empty_db)
   \<and> (\<exists>rid d' row rows.
         post_responses Number_sample empty_db 0 sample_submission
           = (Reply 200 (ResponseCreated rid 5), d')
         \<and> responses d' = [row] \<and> answers d' = rows \<and> length rows = 3)
   \<and> handle_session Number_sample (\<lambda>p h. False) sample_state
        (sample_request POST_responses None sample_submission)
      = (fst (post_responses Number_sample sample_db 0 sample_submission),
         sample_state\<lparr>db := snd (post_responses Number_sample sample_db 0 sample_submission)\<rparr>)
   \<and> handle_static Number_sample None empty_db
        (sample_request POST_responses None sample_submission)
      = post_responses Number_sample empty_db 0 sample_submission"
proof -
  have tr: "trim ''   '' = []" "trim ''Ann'' = ''Ann''" "trim '' Ann '' = ''Ann''"
    by (simp_all add: trim_def white_space_def strip.simps ws_len_def)
  have one: "post_responses Number_sample empty_db 0 (JObj [(''name'', JStr ''   '')])
      = (Reply 400 (ErrorBody ''name is required''), empty_db)"
    using C7_validation [where b = "JObj [(''name'', JStr ''   '')]" and num = Number_sample
        and d = empty_db and t = 0, THEN conjunct2] tr
    by simp
  have two: "post_responses Number_sample empty_db 0
        (JObj [(''name'', JStr ''Ann''), (''answers'', JStr ''x'')])
      = (Reply 400 (ErrorBody ''answers is required''), empty_db)"
    using C7_validation [where b = "JObj [(''name'', JStr ''Ann''), (''answers'', JStr ''x'')]"
        and num = Number_sample and d = empty_db and t = 0, THEN conjunct2] tr
    by (simp add: is_object_def)
  have hyp: "(\<exists>s. get_prop sample_submission ''name'' = Some (JStr s) \<and> trim s \<noteq> [])
       \<and> get_prop sample_submission ''answers'' = Some sample_answers \<and> is_object sample_answers
       \<and> (\<forall>(k, v) \<in> set (object_entries sample_answers). to_number Number_sample k \<noteq> NaN)"
    using tr by (simp add: sample_submission_def sample_answers_def is_object_def
        object_entries_def to_number_def Number_sample_def)
  from C7_validation [where b = sample_submission and num = Number_sample and d = empty_db
      and t = 0 and ans = sample_answers, THEN conjunct2] hyp
  obtain rid d' row rows where
    r: "post_responses Number_sample empty_db 0 sample_submission
          = (Reply 200 (ResponseCreated rid (score_of sample_answers)), d')"
       "responses d' = responses empty_db @ [row]"
       "answers d' = answers empty_db @ rows"
       "map answer_cols rows =
          map (\<lambda>(k, v). (rid, to_number Number_sample k, safeVal v)) (object_entries sample_answers)"
    by blast
  have "score_of sample_answers = 5"
    by (simp add: score_of_def sample_answers_def object_values_def reward_def)
  moreover from r(4) have "length rows = 3"
    using length_map [of answer_cols rows]
    by (simp add: sample_answers_def object_entries_def)
  ultimately have three: "\<exists>rid d' row rows.
         post_responses Number_sample empty_db 0 sample_submission
           = (Reply 200 (ResponseCreated rid 5), d')
         \<and> responses d' = [row] \<and> answers d' = rows \<and> length rows = 3"
    using r(1,2,3) by (auto simp: empty_db_def)

  have rt: "route (sample_request POST_responses None sample_submission) = POST_responses"
    by (simp add: sample_request_def)
  from C7_validation [where req = "sample_request POST_responses None sample_submission"
      and num = Number_sample and cmp = "\<lambda>p h. False" and st = sample_state and env = None
      and d0 = empty_db, THEN conjunct1, THEN mp, OF rt]
  have routes: "handle_session Number_sample (\<lambda>p h. False) sample_state
        (sample_request POST_responses None sample_submission)
      = (fst (post_responses Number_sample sample_db 0 sample_submission),
         sample_state\<lparr>db := snd (post_responses Number_sample sample_db 0 sample_submission)\<rparr>)
   \<and> handle_static Number_sample None empty_db
        (sample_request POST_responses None sample_submission)
      = post_responses Number_sample empty_db 0 sample_submission"
    by (simp add: sample_request_def sample_state_def)
  from one two three routes show ?thesis by blast
qed

text \<open>
  C7 as stated fails for a key that is not a number: the submission
  \<^verbatim>\<open>{"name":"Ann","answers":{"abc":"topp"}}\<close> passes both checks, the response row
  is inserted, and the insert of the answer row raises, since \<^verbatim>\<open>Number("abc")\<close> is
  NaN. One response row and no answer row are stored for one submitted key.
\<close>

theorem C7_counterexample:
  "Number_sample ''abc'' = NaN
   \<and> opt_trim (get_prop nan_submission ''name'') = Trimmed ''Ann''
   \<and> get_prop nan_submission ''answers'' = Some (JObj [(''abc'', JStr ''topp'')])
   \<and> is_object (JObj [(''abc'', JStr ''topp'')])
   \<and> object_entries (JObj [(''abc'', JStr ''topp'')]) = [(Name ''abc'', JStr ''topp'')]
   \<and> fst (post_responses Number_sample empty_db 0 nan_submission) = Raised
   \<and> responses (snd (post_responses Number_sample empty_db 0 nan_submission))
        = [\<lparr>r_id = 1, r_name = ''Ann'', r_score = 2, r_submitted_at = 0\<rparr>]
   \<and> answers (snd (post_responses Number_sample empty_db 0 nan_submission)) = []"
  by (simp add: nan_submission_def Number_sample_def opt_trim_def trim_def white_space_def
      strip.simps ws_len_def is_object_def object_entries_def post_responses_def truthy_def
      typeof_object_def score_of_def object_values_def reward_def insert_response_def
      next_rowid_def empty_db_def insert_answer_def to_number_def safeVal_def Let_def)

section \<open>C8: analytics\<close>



section \<open>C9: the leaderboard\<close>

text \<open>
  C9. For every database the leaderboard of the session-token variant lists name and
  score of at most five stored responses (five, or all when there are fewer), ordered
  by score descending; every response left out has a score no greater than any listed
  one. The statement holds for any order among equal scores.
\<close>

theorem C9_leaderboard:
  "\<exists>top rest.
     get_leaderboard d = Reply 200 (Leaderboard (map (\<lambda>r. (r_name r, r_score r)) top))
     \<and> mset (top @ rest) = mset (responses d)
     \<and> length top \<le> 5
     \<and> length top = min 5 (length (responses d))
     \<and> sorted_wrt (\<lambda>a b. r_score b \<le> r_score a) top
     \<and> (\<forall>x \<in> set top. \<forall>r \<in> set rest. r_score r \<le> r_score x)
     \<and> (route req = GET_leaderboard \<longrightarrow>
          handle_session num cmp st req = (get_leaderboard (db st), st))"
proof -
  let ?all = "by_score_desc (responses d)"
  have split: "take 5 ?all @ drop 5 ?all = ?all" by simp
  have srt: "sorted_wrt (\<lambda>a b. r_score b \<le> r_score a) (take 5 ?all @ drop 5 ?all)"
    unfolding split by (rule by_score_desc_sorted)
  have perm: "mset (take 5 ?all @ drop 5 ?all) = mset (responses d)"
    unfolding split by (simp add: by_score_desc_def)
  have len: "length ?all = length (responses d)"
    by (simp add: by_score_desc_def)
  have run: "get_leaderboard d =
      Reply 200 (Leaderboard (map (\<lambda>r. (r_name r, r_score r)) (take 5 ?all)))"
    by (simp add: get_leaderboard_def)
  have rt: "route req = GET_leaderboard \<longrightarrow>
          handle_session num cmp st req = (get_leaderboard (db st), st)"
    by (simp add: handle_session_def)
  have top: "sorted_wrt (\<lambda>a b. r_score b \<le> r_score a) (take 5 ?all)"
    and cross: "\<forall>x \<in> set (take 5 ?all). \<forall>r \<in> set (drop 5 ?all). r_score r \<le> r_score x"
    using srt [unfolded sorted_wrt_append] by blast+
  have l5: "length (take 5 ?all) \<le> 5" "length (take 5 ?all) = min 5 (length (responses d))"
    using len by simp_all
  show ?thesis
    apply (rule exI [of _ "take 5 ?all"], rule exI [of _ "drop 5 ?all"])
    using run perm l5 top cross rt by blast
qed

theorem C9_leaderboard_witness:
  "get_leaderboard sample_board =
     Reply 200 (Leaderboard [(''b'', 7), (''d'', 7), (''f'', 5), (''c'', 3), (''g'', 2)])
   \<and> (\<exists>top rest.
        get_leaderboard sample_board = Reply 200 (Leaderboard (map (\<lambda>r. (r_name r, r_score r)) top))
        \<and> mset (top @ rest) = mset (responses sample_board)
        \<and> length top = 5
        \<and> sorted_wrt (\<lambda>a b. r_score b \<le> r_score a) top)
   \<and> handle_session Number_sample (\<lambda>p h. False) \<lparr>db = sample_board, activeSessions = {}\<rparr>
        (sample_request GET_leaderboard None (JObj []))
      = (get_leaderboard sample_board, \<lparr>db = sample_board, activeSessions = {}\<rparr>)"
proof -
  let ?cmp = "\<lambda>(p::string) (h::string). False"
  let ?st = "\<lparr>db = sample_board, activeSessions = {}\<rparr>"
  let ?r = "sample_request GET_leaderboard None (JObj [])"
  have ev: "get_leaderboard sample_board =
     Reply 200 (Leaderboard [(''b'', 7), (''d'', 7), (''f'', 5), (''c'', 3), (''g'', 2)])"
    by code_simp
  have len: "length (responses sample_board) = 7"
    by (simp add: sample_board_def)
  from C9_leaderboard [of sample_board ?r Number_sample ?cmp ?st]
  obtain top rest where
    t: "get_leaderboard sample_board = Reply 200 (Leaderboard (map (\<lambda>r. (r_name r, r_score r)) top))"
       "mset (top @ rest) = mset (responses sample_board)"
       "length top = min 5 (length (responses sample_board))"
       "sorted_wrt (\<lambda>a b. r_score b \<le> r_score a) top"
    and h: "route ?r = GET_leaderboard \<longrightarrow>
          handle_session Number_sample ?cmp ?st ?r = (get_leaderboard (db ?st), ?st)"
    by blast
  from t(3) len have "length top = 5" by simp
  with t have ex: "\<exists>top rest.
        get_leaderboard sample_board = Reply 200 (Leaderboard (map (\<lambda>r. (r_name r, r_score r)) top))
        \<and> mset (top @ rest) = mset (responses sample_board)
        \<and> length top = 5
        \<and> sorted_wrt (\<lambda>a b. r_score b \<le> r_score a) top"
    by blast
  from h have w: "handle_session Number_sample ?cmp ?st ?r = (get_leaderboard sample_board, ?st)"
    by (simp add: sample_request_def)
  from ev ex w show ?thesis by blast
qed

section \<open>C10: an array as the answers field\<close>

text \<open>
  C10. A submission that passes the name check and whose \<^verbatim>\<open>answers\<close> field is a JSON
  array passes the answers check (an array is of object type): it replies 200 and
  creates a response row whose score is summed over the elements of the array, and one
  answer row per index, with the indices 0, 1, 2, ... as question ids. For the empty
  array the score is 0 and no answer row is created. Both variants pass a
  \<^verbatim>\<open>POST /api/responses\<close> to this handler without consulting the gate.
\<close>

theorem C10_array_answers:
  assumes "opt_trim (get_prop b ''name'') = Trimmed n" and "n \<noteq> []"
    and "get_prop b ''answers'' = Some (JArr xs)"
  shows "(route req = POST_responses \<longrightarrow>
       handle_session num cmp st req =
         (fst (post_responses num (db st) (req_time req) (req_body req)),
          st\<lparr>db := snd (post_responses num (db st) (req_time req) (req_body req))\<rparr>)
       \<and> handle_static num env d0 req = post_responses num d0 (req_time req) (req_body req))
   \<and> (\<exists>rid d' rows.
      post_responses num d t b =
        (Reply 200 (ResponseCreated rid
           (\<Sum>v\<leftarrow>xs. if v = JStr ''topp'' then 2 else if v = JStr ''flash'' then 3 else 0)), d')
      \<and> responses d' = responses d @
          [\<lparr>r_id = rid, r_name = n,
            r_score = (\<Sum>v\<leftarrow>xs. if v = JStr ''topp'' then 2 else if v = JStr ''flash'' then 3 else 0),
            r_submitted_at = t\<rparr>]
      \<and> answers d' = answers d @ rows
      \<and> map answer_cols rows = map (\<lambda>i. (rid, Fin (of_nat i), safeVal (xs ! i))) [0..<length xs]
      \<and> (xs = [] \<longrightarrow>
           post_responses num d t b = (Reply 200 (ResponseCreated rid 0), d')
           \<and> answers d' = answers d))"
    (is "?routing \<and> ?core")
proof -
  have core: ?core
  proof -
  have obj: "is_object (JArr xs)" by (simp add: is_object_def)
  obtain rid d1 where ir: "insert_response d t n (score_of (JArr xs)) = (rid, d1)"
    by (cases "insert_response d t n (score_of (JArr xs))")
  obtain ok d2 where ia: "insert_answers num rid (object_entries (JArr xs)) d1 = (ok, d2)"
    by (cases "insert_answers num rid (object_entries (JArr xs)) d1")
  from insert_answers_rows [OF ia] obtain rows where
    rows: "answers d2 = answers d1 @ rows"
      "map answer_cols rows =
         map (\<lambda>(k, v). (rid, to_number num k, safeVal v))
           (take (length rows) (object_entries (JArr xs)))"
      "ok \<longleftrightarrow> length rows = length (object_entries (JArr xs))"
      "ok \<longleftrightarrow> (\<forall>(k, v) \<in> set (object_entries (JArr xs)). to_number num k \<noteq> NaN)"
    by blast
  have ok: ok using rows(4) array_keys_numeric [of xs num] by simp
  with rows(3) have len: "length rows = length (object_entries (JArr xs))" by simp
  have cols: "map answer_cols rows = map (\<lambda>i. (rid, Fin (of_nat i), safeVal (xs ! i))) [0..<length xs]"
    using rows(2) len entries_of_array [of rid num xs] by simp
  have sc: "score_of (JArr xs) =
      (\<Sum>v\<leftarrow>xs. if v = JStr ''topp'' then 2 else if v = JStr ''flash'' then 3 else 0)"
    using score_of_sum [of "JArr xs"] by (simp add: object_values_def)
  have run: "post_responses num d t b = (Reply 200 (ResponseCreated rid (score_of (JArr xs))), d2)"
    using post_responses_accept [OF assms obj ir ia] ok by simp
  have resp: "responses d2 = responses d @
      [\<lparr>r_id = rid, r_name = n, r_score = score_of (JArr xs), r_submitted_at = t\<rparr>]"
    using insert_response_eq [OF ir] insert_answers_frame [OF ia] by simp
  have ans: "answers d2 = answers d @ rows"
    using rows(1) insert_response_eq [OF ir] by simp
  have empty: "rows = []" if "xs = []"
    using cols that by simp
  show ?thesis
    apply (rule exI [of _ rid], rule exI [of _ d2], rule exI [of _ rows])
    using run resp ans cols empty sc by auto
  qed
  have routing: ?routing
    using submission_routes [of req num cmp st env d0] by blast
  from routing core show ?thesis by (rule conjI)
qed

theorem C10_array_answers_witness:
  "opt_trim (get_prop array_submission ''name'') = Trimmed ''Bo''
   \<and> get_prop array_submission ''answers'' = Some (JArr [JStr ''flash'', JNull])
   \<and> (\<exists>rid d' a0 a1.
         post_responses Number_sample empty_db 7 array_submission
           = (Reply 200 (ResponseCreated rid 3), d')
         \<and> answers d' = [a0, a1]
         \<and> answer_cols a0 = (rid, Fin 0, Some ''flash'')
         \<and> answer_cols a1 = (rid, Fin 1, None))
   \<and> handle_session Number_sample (\<lambda>p h. False) sample_state
        (sample_request POST_responses None array_submission)
      = (fst (post_responses Number_sample sample_db 0 array_submission),
         sample_state\<lparr>db := snd (post_responses Number_sample sample_db 0 array_submission)\<rparr>)
   \<and> handle_static Number_sample None empty_db
        (sample_request POST_responses None array_submission)
      = post_responses Number_sample empty_db 0 array_submission"
proof -
  have h1: "opt_trim (get_prop array_submission ''name'') = Trimmed ''Bo''"
    by (simp add: array_submission_def opt_trim_def trim_def white_space_def strip.simps ws_len_def)
  have h2: "''Bo'' \<noteq> []" by simp
  have h3: "get_prop array_submission ''answers'' = Some (JArr [JStr ''flash'', JNull])"
    by (simp add: array_submission_def)
  from C10_array_answers [where num = Number_sample and d = empty_db and t = 7,
      OF h1 h2 h3, THEN conjunct2]
  obtain rid d' rows where
    r0: "post_responses Number_sample empty_db 7 array_submission =
          (Reply 200 (ResponseCreated rid
             (\<Sum>v\<leftarrow>[JStr ''flash'', JNull].
                if v = JStr ''topp'' then 2 else if v = JStr ''flash'' then 3 else 0)), d')"
    and r2: "answers d' = answers empty_db @ rows"
    and r3: "map answer_cols rows =
       map (\<lambda>i. (rid, Fin (of_nat i), safeVal ([JStr ''flash'', JNull] ! i)))
         [0..<length [JStr ''flash'', JNull]]"
    by blast
  from r0 have r1: "post_responses Number_sample empty_db 7 array_submission
          = (Reply 200 (ResponseCreated rid 3), d')" by simp
  note r = r1 r2 r3
  from r(3) have "map answer_cols rows = [(rid, Fin 0, Some ''flash''), (rid, Fin 1, None)]"
    by (simp add: safeVal_def upt_rec)
  then obtain a0 a1 where "rows = [a0, a1]" "answer_cols a0 = (rid, Fin 0, Some ''flash'')"
      "answer_cols a1 = (rid, Fin 1, None)"
    by (cases rows; cases "tl rows") auto
  with r(1,2) have "\<exists>rid d' a0 a1.
         post_responses Number_sample empty_db 7 array_submission
           = (Reply 200 (ResponseCreated rid 3), d')
         \<and> answers d' = [a0, a1]
         \<and> answer_cols a0 = (rid, Fin 0, Some ''flash'')
         \<and> answer_cols a1 = (rid, Fin 1, None)"
    by (auto simp: empty_db_def)
  then have core: "\<exists>rid d' a0 a1.
         post_responses Number_sample empty_db 7 array_submission
           = (Reply 200 (ResponseCreated rid 3), d')
         \<and> answers d' = [a0, a1]
         \<and> answer_cols a0 = (rid, Fin 0, Some ''flash'')
         \<and> answer_cols a1 = (rid, Fin 1, None)" .
  have rt: "route (sample_request POST_responses None array_submission) = POST_responses"
    by (simp add: sample_request_def)
  from C10_array_answers [where req = "sample_request POST_responses None array_submission"
      and num = Number_sample and cmp = "\<lambda>p h. False" and st = sample_state and env = None
      and d0 = empty_db, OF h1 h2 h3, THEN conjunct1, THEN mp, OF rt]
  have routes: "handle_session Number_sample (\<lambda>p h. False) sample_state
        (sample_request POST_responses None array_submission)
      = (fst (post_responses Number_sample sample_db 0 array_submission),
         sample_state\<lparr>db := snd (post_responses Number_sample sample_db 0 array_submission)\<rparr>)
   \<and> handle_static Number_sample None empty_db
        (sample_request POST_responses None array_submission)
      = post_responses Number_sample empty_db 0 array_submission"
    by (simp add: sample_request_def sample_state_def)
  from h1 h3 core routes show ?thesis by blast
qed

end
